theory Spec2Isabelle
  imports Complex_Main "HOL-Library.Word" "HOL-Library.AList" "HOL-Library.Signed_Division"
begin

section \<open>The order execution engine of trading-engine/cpp/execution\<close>

text \<open>
  A shallow embedding of \<^verbatim>\<open>order_engine.h\<close> and \<^verbatim>\<open>order_engine.cpp\<close>.

  Conventions of the embedding.
  \<^item> A C++ \<^verbatim>\<open>double\<close> is a \<^typ>\<open>real\<close>, the value it denotes; infinities and NaN are outside
    the model. Comparisons are exact. In \<^verbatim>\<open>Order::add_fill\<close>, whose quotient is truncated to the
    ticks of the average fill price, every operation on doubles rounds as IEEE 754 binary64
    arithmetic does (to nearest, ties to even, 53 significant bits); the exponent is taken as
    unbounded, so overflow and subnormal results are outside the model. Elsewhere the
    arithmetic of doubles is exact arithmetic, and the conversion \<^verbatim>\<open>static_cast<int64_t>\<close>
    truncates toward zero.
  \<^item> Tick counts (\<^verbatim>\<open>int64_t\<close>) are \<^typ>\<open>int\<close>: signed overflow is undefined in C++, the
    source never checks for it, and the model describes executions that stay in range.
    The \<^verbatim>\<open>uint64_t\<close> counters of the metrics, whose arithmetic wraps, are \<^typ>\<open>64 word\<close>.
  \<^item> Each class is a record of its data members, each method a function that takes the object
    and returns the updated one. Objects held through \<^verbatim>\<open>std::shared_ptr\<close> live in an
    explicit store (a list indexed by address), so that the active-orders map and the work queue
    alias the order that the execution path mutates.
  \<^item> \<^verbatim>\<open>std::unordered_map\<close> is an association list with one entry per key, handled with
    \<^const>\<open>AList.update\<close>, \<^const>\<open>AList.delete\<close> and \<^const>\<open>map_of\<close>.
  \<^item> Readings of the steady clock are arguments of the functions that take them. Locks and
    thread interleavings are not modelled: every method runs to completion on its own. A
    registered callback is a flag, and every invocation is appended to a log of its arguments.
\<close>

subsection \<open>Enumerations of the C interface\<close>

datatype OrderType =
  ORDER_TYPE_MARKET | ORDER_TYPE_LIMIT | ORDER_TYPE_STOP | ORDER_TYPE_STOP_LIMIT
  | ORDER_TYPE_TRAILING_STOP

datatype OrderSide = ORDER_SIDE_BUY | ORDER_SIDE_SELL

datatype OrderStatus =
  ORDER_STATUS_PENDING | ORDER_STATUS_SUBMITTED | ORDER_STATUS_PARTIALLY_FILLED
  | ORDER_STATUS_FILLED | ORDER_STATUS_CANCELLED | ORDER_STATUS_REJECTED | ORDER_STATUS_EXPIRED

datatype TimeInForce =
  TIME_IN_FORCE_GTC | TIME_IN_FORCE_IOC | TIME_IN_FORCE_FOK | TIME_IN_FORCE_DAY
  | TIME_IN_FORCE_GTD

datatype ExecutionResult =
  EXEC_SUCCESS | EXEC_ERROR_INVALID_ORDER | EXEC_ERROR_INSUFFICIENT_LIQUIDITY
  | EXEC_ERROR_RISK_LIMIT_EXCEEDED | EXEC_ERROR_TIMEOUT | EXEC_ERROR_SYSTEM_ERROR
  | EXEC_ERROR_ORDER_NOT_FOUND | EXEC_ERROR_MARKET_CLOSED

subsection \<open>Price\<close>

definition TICK_PRECISION :: int where
  "TICK_PRECISION = 100000"

definition double_to_int64 :: "real \<Rightarrow> int" where
  \<comment> \<open>\<^verbatim>\<open>static_cast<int64_t>\<close> of a double: truncation toward zero.\<close>
  "double_to_int64 x = (if 0 \<le> x then \<lfloor>x\<rfloor> else \<lceil>x\<rceil>)"

datatype Price = Price (ticks: int)

definition Price_of_double :: "real \<Rightarrow> Price" where
  "Price_of_double v = Price (double_to_int64 (v * real_of_int TICK_PRECISION))"

definition Price_add :: "Price \<Rightarrow> Price \<Rightarrow> Price" where
  "Price_add a b = Price (ticks a + ticks b)"

definition Price_sub :: "Price \<Rightarrow> Price \<Rightarrow> Price" where
  "Price_sub a b = Price (ticks a - ticks b)"

definition Price_scale :: "Price \<Rightarrow> real \<Rightarrow> Price" where
  \<comment> \<open>\<^verbatim>\<open>Price::operator*(double)\<close>\<close>
  "Price_scale a factor = Price (double_to_int64 (real_of_int (ticks a) * factor))"

definition Price_lt :: "Price \<Rightarrow> Price \<Rightarrow> bool" where
  "Price_lt a b = (ticks a < ticks b)"

definition Price_gt :: "Price \<Rightarrow> Price \<Rightarrow> bool" where
  "Price_gt a b = (ticks a > ticks b)"

definition Price_le :: "Price \<Rightarrow> Price \<Rightarrow> bool" where
  "Price_le a b = (ticks a \<le> ticks b)"

definition Price_ge :: "Price \<Rightarrow> Price \<Rightarrow> bool" where
  "Price_ge a b = (ticks a \<ge> ticks b)"

definition to_double :: "Price \<Rightarrow> real" where
  "to_double a = real_of_int (ticks a) / real_of_int TICK_PRECISION"

subsection \<open>Rounding of doubles\<close>

text \<open>
  A positive real \<open>x\<close> with \<open>2\<^sup>e \<le> x < 2\<^sup>e\<^sup>+\<^sup>1\<close> lies between doubles that are
  \<open>2\<^sup>e\<^sup>-\<^sup>5\<^sup>2\<close> apart. Rounding takes the nearest of them, and of two equally near ones the
  one with the even significand.
\<close>

definition pow2 :: "int \<Rightarrow> real" where
  "pow2 e = (if 0 \<le> e then 2 ^ nat e else 1 / 2 ^ nat (- e))"

definition binade :: "real \<Rightarrow> int" where
  \<comment> \<open>the exponent \<open>e\<close> of a positive real\<close>
  "binade x = \<lfloor>log 2 x\<rfloor>"

definition round_half_even :: "real \<Rightarrow> int" where
  "round_half_even y =
     (if y - real_of_int \<lfloor>y\<rfloor> < 1 / 2 then \<lfloor>y\<rfloor>
      else if y - real_of_int \<lfloor>y\<rfloor> > 1 / 2 then \<lfloor>y\<rfloor> + 1
      else if even \<lfloor>y\<rfloor> then \<lfloor>y\<rfloor> else \<lfloor>y\<rfloor> + 1)"

definition round_positive :: "real \<Rightarrow> real" where
  "round_positive x =
     real_of_int (round_half_even (x / pow2 (binade x - 52))) * pow2 (binade x - 52)"

definition round_double :: "real \<Rightarrow> real" where
  "round_double x =
     (if x = 0 then 0 else if 0 < x then round_positive x else - round_positive (- x))"

definition dadd :: "real \<Rightarrow> real \<Rightarrow> real" where
  \<comment> \<open>the sum of two doubles; adding zero returns the other operand\<close>
  "dadd x y = (if x = 0 then y else if y = 0 then x else round_double (x + y))"

definition dmul :: "real \<Rightarrow> real \<Rightarrow> real" where
  "dmul x y = round_double (x * y)"

definition ddiv :: "real \<Rightarrow> real \<Rightarrow> real" where
  "ddiv x y = round_double (x / y)"

definition int64_to_double :: "int \<Rightarrow> real" where
  \<comment> \<open>the conversion of an \<^verbatim>\<open>int64_t\<close> operand in an expression of doubles\<close>
  "int64_to_double k = round_double (real_of_int k)"

subsection \<open>OrderBookLevel and OrderBook\<close>

definition ORDER_BOOK_DEPTH :: nat where
  "ORDER_BOOK_DEPTH = 20"

record OrderBookLevel =
  price_ticks :: int
  level_size :: real

definition new_level :: OrderBookLevel where
  \<comment> \<open>the default member initialisers: \<^verbatim>\<open>price_ticks_{0}\<close>, \<^verbatim>\<open>size_{0.0}\<close>\<close>
  "new_level = \<lparr>price_ticks = 0, level_size = 0\<rparr>"

definition set_price_size :: "OrderBookLevel \<Rightarrow> Price \<Rightarrow> real \<Rightarrow> OrderBookLevel" where
  "set_price_size l p s = l\<lparr>price_ticks := ticks p, level_size := s\<rparr>"

definition get_price :: "OrderBookLevel \<Rightarrow> Price" where
  "get_price l = Price (price_ticks l)"

definition get_size :: "OrderBookLevel \<Rightarrow> real" where
  "get_size l = level_size l"

definition is_valid :: "OrderBookLevel \<Rightarrow> bool" where
  "is_valid l = (price_ticks l > 0 \<and> level_size l > 0)"

record OrderBook =
  book_symbol :: string
  bids :: "OrderBookLevel list"
  asks :: "OrderBookLevel list"
  last_update_time :: int

definition new_OrderBook :: "string \<Rightarrow> OrderBook" where
  \<comment> \<open>\<^verbatim>\<open>OrderBook(symbol)\<close>: two arrays of \<^verbatim>\<open>ORDER_BOOK_DEPTH\<close> default levels\<close>
  "new_OrderBook s =
     \<lparr>book_symbol = s, bids = replicate ORDER_BOOK_DEPTH new_level,
      asks = replicate ORDER_BOOK_DEPTH new_level, last_update_time = 0\<rparr>"

definition update_bid :: "OrderBook \<Rightarrow> Price \<Rightarrow> real \<Rightarrow> nat \<Rightarrow> int \<Rightarrow> OrderBook" where
  \<comment> \<open>the last argument is the reading of the steady clock, in nanoseconds\<close>
  "update_bid b p s level now_ns =
     (if level \<ge> ORDER_BOOK_DEPTH then b
      else b\<lparr>bids := (bids b)[level := set_price_size (bids b ! level) p s],
             last_update_time := now_ns\<rparr>)"

definition update_ask :: "OrderBook \<Rightarrow> Price \<Rightarrow> real \<Rightarrow> nat \<Rightarrow> int \<Rightarrow> OrderBook" where
  "update_ask b p s level now_ns =
     (if level \<ge> ORDER_BOOK_DEPTH then b
      else b\<lparr>asks := (asks b)[level := set_price_size (asks b ! level) p s],
             last_update_time := now_ns\<rparr>)"

definition get_best_bid :: "OrderBook \<Rightarrow> Price" where
  "get_best_bid b = get_price (bids b ! 0)"

definition get_best_ask :: "OrderBook \<Rightarrow> Price" where
  "get_best_ask b = get_price (asks b ! 0)"

definition get_bid_size :: "OrderBook \<Rightarrow> nat \<Rightarrow> real" where
  "get_bid_size b level = (if level \<ge> ORDER_BOOK_DEPTH then 0 else get_size (bids b ! level))"

definition get_ask_size :: "OrderBook \<Rightarrow> nat \<Rightarrow> real" where
  "get_ask_size b level = (if level \<ge> ORDER_BOOK_DEPTH then 0 else get_size (asks b ! level))"

definition get_mid_price :: "OrderBook \<Rightarrow> Price" where
  \<comment> \<open>integer division of C++ truncates toward zero: \<open>sdiv\<close>\<close>
  "get_mid_price b = Price ((ticks (get_best_bid b) + ticks (get_best_ask b)) sdiv 2)"

definition get_spread :: "OrderBook \<Rightarrow> real" where
  "get_spread b = to_double (Price_sub (get_best_ask b) (get_best_bid b))"

text \<open>
  The two loops of \<^verbatim>\<open>has_sufficient_liquidity\<close>, one per side. A \<^verbatim>\<open>break\<close> leaves the loop
  for the final \<^verbatim>\<open>return false\<close>.
\<close>

fun liquidity_walk_asks :: "real \<Rightarrow> real \<Rightarrow> Price \<Rightarrow> OrderBookLevel list \<Rightarrow> bool" where
  "liquidity_walk_asks available_quantity quantity limit_price [] = False"
| "liquidity_walk_asks available_quantity quantity limit_price (level # rest) =
     (if \<not> is_valid level then False
      else if Price_gt (get_price level) limit_price then False
      else if available_quantity + get_size level \<ge> quantity then True
      else liquidity_walk_asks (available_quantity + get_size level) quantity limit_price rest)"

fun liquidity_walk_bids :: "real \<Rightarrow> real \<Rightarrow> Price \<Rightarrow> OrderBookLevel list \<Rightarrow> bool" where
  "liquidity_walk_bids available_quantity quantity limit_price [] = False"
| "liquidity_walk_bids available_quantity quantity limit_price (level # rest) =
     (if \<not> is_valid level then False
      else if Price_lt (get_price level) limit_price then False
      else if available_quantity + get_size level \<ge> quantity then True
      else liquidity_walk_bids (available_quantity + get_size level) quantity limit_price rest)"

definition has_sufficient_liquidity :: "OrderBook \<Rightarrow> OrderSide \<Rightarrow> real \<Rightarrow> Price \<Rightarrow> bool" where
  "has_sufficient_liquidity b side quantity limit_price =
     (if side = ORDER_SIDE_BUY then liquidity_walk_asks 0 quantity limit_price (asks b)
      else liquidity_walk_bids 0 quantity limit_price (bids b))"

text \<open>
  The loop of \<^verbatim>\<open>get_fills_for_market_order\<close>; its two copies differ only in the array they
  walk. The result lists the pairs in the order of \<^verbatim>\<open>emplace_back\<close>.
\<close>

fun fills_walk :: "real \<Rightarrow> OrderBookLevel list \<Rightarrow> (Price \<times> real) list" where
  "fills_walk remaining_quantity [] = []"
| "fills_walk remaining_quantity (level # rest) =
     (if \<not> is_valid level \<or> remaining_quantity \<le> 0 then []
      else (get_price level, min remaining_quantity (get_size level))
           # fills_walk (remaining_quantity - min remaining_quantity (get_size level)) rest)"

definition get_fills_for_market_order ::
  "OrderBook \<Rightarrow> OrderSide \<Rightarrow> real \<Rightarrow> (Price \<times> real) list" where
  "get_fills_for_market_order b side quantity =
     (if side = ORDER_SIDE_BUY then fills_walk quantity (asks b)
      else fills_walk quantity (bids b))"


subsection \<open>Records of the C interface\<close>

record COrderRequest =
  req_order_id :: string
  req_symbol :: string
  req_order_type :: OrderType
  req_side :: OrderSide
  req_quantity :: real
  req_price :: real
  req_stop_price :: real
  req_time_in_force :: TimeInForce
  req_timestamp_ns :: int
  req_client_id :: string

record COrderResponse =
  resp_order_id :: string
  resp_result :: ExecutionResult
  resp_status :: OrderStatus
  resp_message :: string
  resp_executed_quantity :: real
  resp_average_price :: real
  resp_execution_time_ns :: int
  resp_latency_micros :: int

record CEngineMetrics =
  m_total_orders_processed :: "64 word"
  m_successful_executions :: "64 word"
  m_failed_executions :: "64 word"
  m_active_orders :: "64 word"
  m_average_latency_micros :: real
  m_p99_latency_micros :: real
  m_orders_per_second :: real
  m_memory_usage_bytes :: "64 word"
  m_cpu_usage_percent :: real
  m_uptime_seconds :: int

text \<open>
  The C++ \<^verbatim>\<open>OrderFill\<close> handed to the fill callback. Its \<^verbatim>\<open>timestamp_ns\<close>, a reading of the
  steady clock taken inside the loop, is left out of the logged record.
\<close>

record OrderFill =
  fill_id :: string
  fill_order_id :: string
  fill_price :: real
  fill_quantity :: real
  fill_fee :: real
  fill_venue :: string

subsection \<open>Order\<close>

definition ORDER_TIMEOUT_NS :: int where
  "ORDER_TIMEOUT_NS = 30000000000"

record Order =
  order_id :: string
  symbol :: string
  order_type :: OrderType
  side :: OrderSide
  quantity :: real
  price :: Price
  stop_price :: Price
  time_in_force :: TimeInForce
  status :: OrderStatus
  filled_quantity :: real
  average_fill_price_ticks :: int
  timestamp_ns :: int
  client_id :: string
  fills :: "(Price \<times> real) list"

definition Order_of_request :: "COrderRequest \<Rightarrow> Order" where
  \<comment> \<open>\<^verbatim>\<open>Order::Order(const COrderRequest&)\<close> with the default member initialisers\<close>
  "Order_of_request r =
     \<lparr>order_id = req_order_id r, symbol = req_symbol r, order_type = req_order_type r,
      side = req_side r, quantity = req_quantity r, price = Price_of_double (req_price r),
      stop_price = Price_of_double (req_stop_price r), time_in_force = req_time_in_force r,
      status = ORDER_STATUS_PENDING, filled_quantity = 0, average_fill_price_ticks = 0,
      timestamp_ns = req_timestamp_ns r, client_id = req_client_id r, fills = []\<rparr>"

definition set_status :: "Order \<Rightarrow> OrderStatus \<Rightarrow> Order" where
  "set_status ord st = ord\<lparr>status := st\<rparr>"

definition add_fill_default_fee :: real where
  \<comment> \<open>the default argument \<^verbatim>\<open>double fee = 0.0\<close> of the declaration in \<^verbatim>\<open>order_engine.h\<close>\<close>
  "add_fill_default_fee = 0"

definition add_fill :: "Order \<Rightarrow> Price \<Rightarrow> real \<Rightarrow> real \<Rightarrow> Order" where
  \<comment> \<open>The body never reads \<open>fee\<close>. The sum \<^verbatim>\<open>old_filled + quantity\<close> and the weighted average
      \<^verbatim>\<open>((old_avg_ticks * old_filled) + (price.ticks() * quantity)) / new_filled\<close> are computed
      in doubles, each operation rounding, and the quotient is truncated to \<^verbatim>\<open>int64_t\<close>. A
      division by \<open>new_filled = 0\<close> is outside the orders the engine admits.\<close>
  "add_fill ord p q fee =
     (let old_filled = filled_quantity ord;
          new_filled = dadd old_filled q;
          old_avg_ticks = average_fill_price_ticks ord;
          new_avg_ticks = double_to_int64
            (ddiv (dadd (dmul (int64_to_double old_avg_ticks) old_filled)
                        (dmul (int64_to_double (ticks p)) q))
                  new_filled)
      in ord\<lparr>fills := fills ord @ [(p, q)],
              filled_quantity := new_filled,
              average_fill_price_ticks := new_avg_ticks,
              status := (if new_filled \<ge> quantity ord then ORDER_STATUS_FILLED
                         else ORDER_STATUS_PARTIALLY_FILLED)\<rparr>)"

definition is_fully_filled :: "Order \<Rightarrow> bool" where
  "is_fully_filled ord = (filled_quantity ord \<ge> quantity ord)"

definition is_active :: "Order \<Rightarrow> bool" where
  "is_active ord =
     (status ord = ORDER_STATUS_SUBMITTED \<or> status ord = ORDER_STATUS_PARTIALLY_FILLED)"

definition is_expired :: "Order \<Rightarrow> int \<Rightarrow> bool" where
  "is_expired ord current_time_ns =
     (if time_in_force ord = TIME_IN_FORCE_DAY then False
      else (current_time_ns - timestamp_ns ord) > ORDER_TIMEOUT_NS)"

definition get_average_fill_price :: "Order \<Rightarrow> Price" where
  "get_average_fill_price ord = Price (average_fill_price_ticks ord)"

definition validate :: "Order \<Rightarrow> bool" where
  "validate ord =
     (if order_id ord = [] \<or> symbol ord = [] then False
      else if quantity ord \<le> 0 then False
      else if order_type ord = ORDER_TYPE_LIMIT \<and> ticks (price ord) \<le> 0 then False
      else if order_type ord = ORDER_TYPE_STOP \<and> ticks (stop_price ord) \<le> 0 then False
      else True)"

definition get_remaining_quantity :: "Order \<Rightarrow> real" where
  "get_remaining_quantity ord = quantity ord - filled_quantity ord"

subsection \<open>PerformanceMetrics\<close>

record PerformanceMetrics =
  total_orders_processed :: "64 word"
  successful_executions :: "64 word"
  failed_executions :: "64 word"
  metrics_active_orders :: "64 word"
  total_latency_micros :: "64 word"
  total_volume :: real
  memory_usage_bytes :: "64 word"
  cpu_usage_percent :: real
  latency_samples :: "int list"
  start_time :: int

definition new_PerformanceMetrics :: "int \<Rightarrow> PerformanceMetrics" where
  \<comment> \<open>the constructor; the argument is the steady clock at construction, in nanoseconds\<close>
  "new_PerformanceMetrics now_ns =
     \<lparr>total_orders_processed = 0, successful_executions = 0, failed_executions = 0,
      metrics_active_orders = 0, total_latency_micros = 0, total_volume = 0,
      memory_usage_bytes = 0, cpu_usage_percent = 0, latency_samples = [],
      start_time = now_ns\<rparr>"

definition MAX_LATENCY_SAMPLES :: nat where
  "MAX_LATENCY_SAMPLES = 10000"

definition trim_samples :: "int list \<Rightarrow> int list" where
  \<comment> \<open>\<^verbatim>\<open>erase(begin(), begin() + size() - 10000)\<close> when \<^verbatim>\<open>size() > 10000\<close>\<close>
  "trim_samples xs =
     (if length xs > MAX_LATENCY_SAMPLES then drop (length xs - MAX_LATENCY_SAMPLES) xs else xs)"

definition record_order_processed :: "PerformanceMetrics \<Rightarrow> int \<Rightarrow> bool \<Rightarrow> PerformanceMetrics" where
  "record_order_processed m latency success =
     (let m1 = m\<lparr>total_orders_processed := total_orders_processed m + 1,
                  total_latency_micros := total_latency_micros m + word_of_int latency\<rparr>;
          m2 = (if success then m1\<lparr>successful_executions := successful_executions m1 + 1\<rparr>
                else m1\<lparr>failed_executions := failed_executions m1 + 1\<rparr>)
      in m2\<lparr>latency_samples := trim_samples (latency_samples m2 @ [latency])\<rparr>)"

definition record_fill :: "PerformanceMetrics \<Rightarrow> real \<Rightarrow> Price \<Rightarrow> PerformanceMetrics" where
  "record_fill m q p = m\<lparr>total_volume := total_volume m + q * to_double p\<rparr>"

definition record_memory_usage :: "PerformanceMetrics \<Rightarrow> 64 word \<Rightarrow> PerformanceMetrics" where
  "record_memory_usage m bytes = m\<lparr>memory_usage_bytes := bytes\<rparr>"

definition record_cpu_usage :: "PerformanceMetrics \<Rightarrow> real \<Rightarrow> PerformanceMetrics" where
  "record_cpu_usage m percentage = m\<lparr>cpu_usage_percent := percentage\<rparr>"

definition p99_index :: "nat \<Rightarrow> nat" where
  \<comment> \<open>\<^verbatim>\<open>static_cast<size_t>(sorted_samples.size() * 0.99)\<close>\<close>
  "p99_index n = nat (double_to_int64 (real n * 0.99))"

definition p99_latency :: "int list \<Rightarrow> real" where
  "p99_latency samples =
     (if samples \<noteq> [] then
        (let sorted_samples = sort samples in
         if p99_index (length sorted_samples) < length sorted_samples
         then real_of_int (sorted_samples ! p99_index (length sorted_samples))
         else 0)
      else 0)"

definition uptime_of :: "PerformanceMetrics \<Rightarrow> int \<Rightarrow> int" where
  \<comment> \<open>\<^verbatim>\<open>duration_cast<seconds>(now - start_time_)\<close>, both readings in nanoseconds\<close>
  "uptime_of m now_ns = (now_ns - start_time m) sdiv 1000000000"

definition metrics_get_metrics :: "PerformanceMetrics \<Rightarrow> int \<Rightarrow> CEngineMetrics" where
  \<comment> \<open>\<^verbatim>\<open>PerformanceMetrics::get_metrics\<close>; the snapshot starts zero-initialised\<close>
  "metrics_get_metrics m now_ns =
     \<lparr>m_total_orders_processed = total_orders_processed m,
      m_successful_executions = successful_executions m,
      m_failed_executions = failed_executions m,
      m_active_orders = metrics_active_orders m,
      m_average_latency_micros =
        (if total_orders_processed m > 0
         then real (unat (total_latency_micros m)) / real (unat (total_orders_processed m))
         else 0),
      m_p99_latency_micros = p99_latency (latency_samples m),
      m_orders_per_second =
        (if total_orders_processed m > 0 \<and> uptime_of m now_ns > 0
         then real (unat (total_orders_processed m)) / real_of_int (uptime_of m now_ns)
         else 0),
      m_memory_usage_bytes = memory_usage_bytes m,
      m_cpu_usage_percent = cpu_usage_percent m,
      m_uptime_seconds = uptime_of m now_ns\<rparr>"

definition reset :: "PerformanceMetrics \<Rightarrow> int \<Rightarrow> PerformanceMetrics" where
  "reset m now_ns =
     m\<lparr>total_orders_processed := 0, successful_executions := 0, failed_executions := 0,
       metrics_active_orders := 0, total_latency_micros := 0, total_volume := 0,
       memory_usage_bytes := 0, cpu_usage_percent := 0, latency_samples := [],
       start_time := now_ns\<rparr>"

text \<open>
  The calls a \<^verbatim>\<open>PerformanceMetrics\<close> object can receive, and the object after a sequence of
  them, starting from the constructor.
\<close>

datatype metrics_call =
  Record_order_processed int bool
  | Record_fill real Price
  | Record_memory_usage "64 word"
  | Record_cpu_usage real
  | Reset int

fun apply_metrics_call :: "PerformanceMetrics \<Rightarrow> metrics_call \<Rightarrow> PerformanceMetrics" where
  "apply_metrics_call m (Record_order_processed latency success) =
     record_order_processed m latency success"
| "apply_metrics_call m (Record_fill q p) = record_fill m q p"
| "apply_metrics_call m (Record_memory_usage bytes) = record_memory_usage m bytes"
| "apply_metrics_call m (Record_cpu_usage percentage) = record_cpu_usage m percentage"
| "apply_metrics_call m (Reset now_ns) = reset m now_ns"

definition metrics_after :: "int \<Rightarrow> metrics_call list \<Rightarrow> PerformanceMetrics" where
  "metrics_after t0 calls = foldl apply_metrics_call (new_PerformanceMetrics t0) calls"

subsection \<open>ExecutionEngine\<close>

record Config =
  max_concurrent_orders :: nat
  order_timeout_ns :: int
  enable_risk_checks :: bool
  max_position_size :: real
  enable_simulation :: bool
  worker_thread_count :: int

definition default_Config :: Config where
  "default_Config =
     \<lparr>max_concurrent_orders = 10000, order_timeout_ns = ORDER_TIMEOUT_NS,
      enable_risk_checks = True, max_position_size = 1000000, enable_simulation = True,
      worker_thread_count = 4\<rparr>"

text \<open>
  The data members of \<^verbatim>\<open>ExecutionEngine\<close>. \<open>worker_threads\<close> is the number of threads in the
  vector and \<open>market_simulator_thread\<close> tells whether the simulator thread is joinable.
  \<open>order_store\<close> holds the orders created by \<^verbatim>\<open>std::make_shared\<close> that the map and the
  queue point to; the map and the queue hold addresses into it. The two memory pools are
  allocated by the constructor and used by no method, and are left out.
\<close>

record ExecutionEngine =
  config :: Config
  worker_threads :: nat
  market_simulator_thread :: bool
  running :: bool
  order_store :: "Order list"
  active_orders :: "(string \<times> nat) list"
  order_books :: "(string \<times> OrderBook) list"
  order_queue :: "nat list"
  metrics :: PerformanceMetrics
  fill_callback :: bool
  status_callback :: bool
  fill_callback_log :: "OrderFill list"
  status_callback_log :: "(string \<times> OrderStatus \<times> string) list"
  initialized :: bool
  healthy :: bool

definition new_ExecutionEngine :: "int \<Rightarrow> ExecutionEngine" where
  "new_ExecutionEngine now_ns =
     \<lparr>config = default_Config, worker_threads = 0, market_simulator_thread = False,
      running = False, order_store = [], active_orders = [], order_books = [],
      order_queue = [], metrics = new_PerformanceMetrics now_ns, fill_callback = False,
      status_callback = False, fill_callback_log = [], status_callback_log = [],
      initialized = False, healthy = False\<rparr>"

definition seed_symbols :: "string list" where
  "seed_symbols = [''AAPL'', ''GOOGL'', ''MSFT'', ''TSLA'', ''AMZN'']"

definition initialize :: "ExecutionEngine \<Rightarrow> string \<Rightarrow> ExecutionResult \<times> ExecutionEngine" where
  \<comment> \<open>\<^verbatim>\<open>order_books_[symbol] = std::make_unique<OrderBook>(symbol)\<close> for each seed symbol\<close>
  "initialize e config_json =
     (EXEC_SUCCESS,
      e\<lparr>order_books := foldl (\<lambda>books s. AList.update s (new_OrderBook s) books)
                           (order_books e) seed_symbols,
        initialized := True\<rparr>)"

definition start :: "ExecutionEngine \<Rightarrow> ExecutionResult \<times> ExecutionEngine" where
  "start e =
     (if \<not> initialized e then (EXEC_ERROR_SYSTEM_ERROR, e)
      else if running e then (EXEC_SUCCESS, e)
      else (EXEC_SUCCESS,
            e\<lparr>running := True, healthy := True,
              worker_threads := worker_threads e + nat (worker_thread_count (config e)),
              market_simulator_thread :=
                (if enable_simulation (config e) then True else market_simulator_thread e)\<rparr>))"

definition stop :: "ExecutionEngine \<Rightarrow> ExecutionResult \<times> ExecutionEngine" where
  "stop e =
     (EXEC_SUCCESS,
      e\<lparr>running := False, healthy := False, worker_threads := 0,
        market_simulator_thread := False\<rparr>)"

definition is_healthy :: "ExecutionEngine \<Rightarrow> bool" where
  "is_healthy e = (healthy e \<and> running e)"

definition register_fill_callback :: "ExecutionEngine \<Rightarrow> ExecutionEngine" where
  "register_fill_callback e = e\<lparr>fill_callback := True\<rparr>"

definition register_status_callback :: "ExecutionEngine \<Rightarrow> ExecutionEngine" where
  "register_status_callback e = e\<lparr>status_callback := True\<rparr>"

definition market_add_fill_args :: "Price \<times> real \<Rightarrow> Price \<times> real \<times> real" where
  \<comment> \<open>the arguments of the call \<^verbatim>\<open>order->add_fill(fill.first, fill.second)\<close>, with the
      default argument of the declaration filled in\<close>
  "market_add_fill_args fill = (fst fill, snd fill, add_fill_default_fee)"

definition callback_fill :: "Order \<Rightarrow> Price \<times> real \<Rightarrow> OrderFill" where
  \<comment> \<open>the \<^verbatim>\<open>cpp_fill\<close> that the loop of \<^verbatim>\<open>execute_market_order\<close> hands to the callback\<close>
  "callback_fill ord fill =
     \<lparr>fill_id = ''fill_123'', fill_order_id = order_id ord, fill_price = to_double (fst fill),
      fill_quantity = snd fill, fill_fee = snd fill * 0.001, fill_venue = ''SIM''\<rparr>"

fun process_fills :: "ExecutionEngine \<Rightarrow> nat \<Rightarrow> (Price \<times> real) list \<Rightarrow> ExecutionEngine" where
  "process_fills e addr [] = e"
| "process_fills e addr (fill # rest) =
     (let ord = (case market_add_fill_args fill of
                   (p, q, fee) \<Rightarrow> add_fill (order_store e ! addr) p q fee);
          e1 = e\<lparr>order_store := (order_store e)[addr := ord]\<rparr>;
          e2 = (if fill_callback e1
                then e1\<lparr>fill_callback_log := fill_callback_log e1 @ [callback_fill ord fill]\<rparr>
                else e1)
      in process_fills e2 addr rest)"

definition execute_market_order :: "ExecutionEngine \<Rightarrow> nat \<Rightarrow> ExecutionResult \<times> ExecutionEngine" where
  "execute_market_order e addr =
     (let ord = order_store e ! addr in
      case map_of (order_books e) (symbol ord) of
        None \<Rightarrow> (EXEC_ERROR_INVALID_ORDER, e)
      | Some book \<Rightarrow>
          (let emitted = get_fills_for_market_order book (side ord) (quantity ord) in
           if emitted = [] then (EXEC_ERROR_INSUFFICIENT_LIQUIDITY, e)
           else (EXEC_SUCCESS, process_fills e addr emitted)))"

definition execute_limit_order :: "ExecutionEngine \<Rightarrow> nat \<Rightarrow> ExecutionResult \<times> ExecutionEngine" where
  "execute_limit_order e addr =
     (let ord = order_store e ! addr in
      case map_of (order_books e) (symbol ord) of
        None \<Rightarrow> (EXEC_ERROR_INVALID_ORDER, e)
      | Some book \<Rightarrow>
          (let best_price = (if side ord = ORDER_SIDE_BUY then get_best_ask book
                             else get_best_bid book);
               can_fill = ((side ord = ORDER_SIDE_BUY \<and> Price_ge (price ord) best_price)
                           \<or> (side ord = ORDER_SIDE_SELL \<and> Price_le (price ord) best_price))
           in if can_fill \<and> has_sufficient_liquidity book (side ord) (quantity ord) (price ord)
              then (EXEC_SUCCESS,
                    e\<lparr>order_store := (order_store e)
                        [addr := add_fill ord (price ord) (quantity ord) add_fill_default_fee]\<rparr>)
              else (EXEC_SUCCESS,
                    e\<lparr>order_store := (order_store e)
                        [addr := set_status ord ORDER_STATUS_SUBMITTED]\<rparr>)))"

definition execute_stop_order :: "ExecutionEngine \<Rightarrow> nat \<Rightarrow> ExecutionResult \<times> ExecutionEngine" where
  "execute_stop_order e addr =
     (let ord = order_store e ! addr in
      case map_of (order_books e) (symbol ord) of
        None \<Rightarrow> (EXEC_ERROR_INVALID_ORDER, e)
      | Some book \<Rightarrow>
          (let current_price = get_mid_price book;
               triggered = ((side ord = ORDER_SIDE_BUY \<and> Price_ge current_price (stop_price ord))
                            \<or> (side ord = ORDER_SIDE_SELL
                                \<and> Price_le current_price (stop_price ord)))
           in if triggered
              then (EXEC_SUCCESS,
                    e\<lparr>order_store := (order_store e)
                        [addr := add_fill ord current_price (quantity ord) add_fill_default_fee]\<rparr>)
              else (EXEC_SUCCESS,
                    e\<lparr>order_store := (order_store e)
                        [addr := set_status ord ORDER_STATUS_SUBMITTED]\<rparr>)))"

definition init_response :: "COrderRequest \<Rightarrow> COrderResponse \<Rightarrow> COrderResponse" where
  \<comment> \<open>the head of \<^verbatim>\<open>submit_order\<close>: \<^verbatim>\<open>strncpy\<close> of at most 63 characters of the id, then the
      defaults; \<open>message\<close> and \<open>latency_micros\<close> keep what the caller passed in\<close>
  "init_response request response =
     response\<lparr>resp_order_id := take 63 (req_order_id request), resp_result := EXEC_SUCCESS,
              resp_status := ORDER_STATUS_SUBMITTED, resp_executed_quantity := 0,
              resp_average_price := 0, resp_execution_time_ns := 0\<rparr>"

definition dispatch_order :: "ExecutionEngine \<Rightarrow> nat \<Rightarrow> ExecutionResult \<times> ExecutionEngine" where
  \<comment> \<open>the \<^verbatim>\<open>switch\<close> on the order type\<close>
  "dispatch_order e addr =
     (case order_type (order_store e ! addr) of
        ORDER_TYPE_MARKET \<Rightarrow> execute_market_order e addr
      | ORDER_TYPE_LIMIT \<Rightarrow> execute_limit_order e addr
      | ORDER_TYPE_STOP \<Rightarrow> execute_stop_order e addr
      | _ \<Rightarrow> (EXEC_ERROR_INVALID_ORDER, e))"

definition admit_order :: "ExecutionEngine \<Rightarrow> Order \<Rightarrow> ExecutionEngine" where
  \<comment> \<open>\<^verbatim>\<open>active_orders_[order->get_order_id()] = order; order_queue_.push(order);\<close> the shared
      order gets the next free address of the store\<close>
  "admit_order e ord =
     e\<lparr>order_store := order_store e @ [ord],
       active_orders := AList.update (order_id ord) (length (order_store e)) (active_orders e),
       order_queue := order_queue e @ [length (order_store e)]\<rparr>"

definition submit_order ::
  "ExecutionEngine \<Rightarrow> COrderRequest \<Rightarrow> COrderResponse \<Rightarrow> int \<Rightarrow> int
     \<Rightarrow> ExecutionResult \<times> COrderResponse \<times> ExecutionEngine" where
  \<comment> \<open>\<open>latency\<close> is \<^verbatim>\<open>end_time - start_time\<close> in microseconds and \<open>end_ns\<close> is \<^verbatim>\<open>end_time\<close> in
      nanoseconds, the two clock readings of the body\<close>
  "submit_order e request response latency end_ns =
     (let response1 = init_response request response;
          ord = Order_of_request request
      in if \<not> validate ord
         then (EXEC_ERROR_INVALID_ORDER,
               response1\<lparr>resp_result := EXEC_ERROR_INVALID_ORDER,
                         resp_message := ''Invalid order parameters''\<rparr>, e)
         else if enable_risk_checks (config e) \<and> quantity ord > max_position_size (config e)
         then (EXEC_ERROR_RISK_LIMIT_EXCEEDED,
               response1\<lparr>resp_result := EXEC_ERROR_RISK_LIMIT_EXCEEDED,
                         resp_message := ''Order size exceeds risk limits''\<rparr>, e)
         else
           (let addr = length (order_store e);
                e1 = admit_order e ord;
                exec_result = fst (dispatch_order e1 addr);
                e2 = snd (dispatch_order e1 addr);
                ord2 = order_store e2 ! addr;
                response2 = response1
                  \<lparr>resp_result := exec_result, resp_status := status ord2,
                   resp_executed_quantity := filled_quantity ord2,
                   resp_average_price := to_double (get_average_fill_price ord2),
                   resp_latency_micros := latency, resp_execution_time_ns := end_ns\<rparr>;
                e3 = e2\<lparr>metrics :=
                        record_order_processed (metrics e2) latency (exec_result = EXEC_SUCCESS)\<rparr>;
                e4 = (if exec_result = EXEC_SUCCESS \<and> resp_executed_quantity response2 > 0
                      then e3\<lparr>metrics := record_fill (metrics e3)
                                 (resp_executed_quantity response2)
                                 (Price_of_double (resp_average_price response2))\<rparr>
                      else e3)
            in (exec_result, response2, e4)))"

definition cancel_order :: "ExecutionEngine \<Rightarrow> string \<Rightarrow> ExecutionResult \<times> ExecutionEngine" where
  "cancel_order e oid =
     (case map_of (active_orders e) oid of
        None \<Rightarrow> (EXEC_ERROR_ORDER_NOT_FOUND, e)
      | Some addr \<Rightarrow>
          (if \<not> is_active (order_store e ! addr) then (EXEC_ERROR_INVALID_ORDER, e)
           else
             (let e1 = e\<lparr>order_store := (order_store e)
                           [addr := set_status (order_store e ! addr) ORDER_STATUS_CANCELLED],
                         active_orders := AList.delete oid (active_orders e)\<rparr>;
                  e2 = (if status_callback e1
                        then e1\<lparr>status_callback_log := status_callback_log e1
                                  @ [(oid, ORDER_STATUS_CANCELLED, ''Order cancelled'')]\<rparr>
                        else e1)
              in (EXEC_SUCCESS, e2))))"

definition get_metrics :: "ExecutionEngine \<Rightarrow> int \<Rightarrow> CEngineMetrics" where
  \<comment> \<open>\<^verbatim>\<open>ExecutionEngine::get_metrics\<close>: the snapshot of the metrics object, with
      \<^verbatim>\<open>active_orders_.size()\<close> stamped in\<close>
  "get_metrics e now_ns =
     (metrics_get_metrics (metrics e) now_ns)
       \<lparr>m_active_orders := of_nat (length (active_orders e))\<rparr>"

definition simulate_symbol :: 
  "ExecutionEngine \<Rightarrow> string \<Rightarrow> Price \<Rightarrow> real \<Rightarrow> int \<Rightarrow> int \<Rightarrow> Price \<times> ExecutionEngine" where
  \<comment> \<open>one pass of the inner loop body of \<^verbatim>\<open>simulate_market_data\<close> for one symbol: \<open>change\<close> is
      the random draw, \<open>t1\<close> and \<open>t2\<close> the clock readings of the two book updates; the result
      carries the new simulated price\<close>
  "simulate_symbol e s p change t1 t2 =
     (let p1 = Price_scale p (1 + change) in
      case map_of (order_books e) s of
        None \<Rightarrow> (p1, e)
      | Some book \<Rightarrow>
          (p1, e\<lparr>order_books := AList.update s
                   (update_ask (update_bid book (Price_scale p1 0.999) 1000 0 t1)
                      (Price_scale p1 1.001) 1000 0 t2)
                   (order_books e)\<rparr>))"

definition process_order_queue_pass :: "ExecutionEngine \<Rightarrow> ExecutionEngine" where
  \<comment> \<open>one wake-up of a worker in \<^verbatim>\<open>process_order_queue\<close>: the inner loop pops every queued
      order and does nothing with it\<close>
  "process_order_queue_pass e = (if running e then e\<lparr>order_queue := []\<rparr> else e)"

subsection \<open>The lifecycle functions of the C interface\<close>

text \<open>
  The global \<^verbatim>\<open>g_engine\<close> is an optional engine. \<^verbatim>\<open>engine_initialize\<close> constructs the engine
  when there is none (its argument \<open>now_ns\<close> is the clock at construction), and
  \<^verbatim>\<open>engine_stop\<close> destroys it.
\<close>

definition engine_initialize ::
  "ExecutionEngine option \<Rightarrow> string \<Rightarrow> int \<Rightarrow> ExecutionResult \<times> ExecutionEngine option" where
  "engine_initialize g config_json now_ns =
     (let e = (case g of None \<Rightarrow> new_ExecutionEngine now_ns | Some e0 \<Rightarrow> e0)
      in (fst (initialize e config_json), Some (snd (initialize e config_json))))"

definition engine_start ::
  "ExecutionEngine option \<Rightarrow> ExecutionResult \<times> ExecutionEngine option" where
  "engine_start g =
     (case g of
        None \<Rightarrow> (EXEC_ERROR_SYSTEM_ERROR, None)
      | Some e \<Rightarrow> (fst (start e), Some (snd (start e))))"

definition engine_stop ::
  "ExecutionEngine option \<Rightarrow> ExecutionResult \<times> ExecutionEngine option" where
  "engine_stop g =
     (case g of
        None \<Rightarrow> (EXEC_SUCCESS, None)
      | Some e \<Rightarrow> (fst (stop e), None))"

subsection \<open>Notions used in the statements\<close>






definition validation_fails :: "COrderRequest \<Rightarrow> bool" where
  \<comment> \<open>the specification's list of the requests that validation refuses\<close>
  "validation_fails r =
     (req_order_id r = [] \<or> req_symbol r = [] \<or> req_quantity r \<le> 0
      \<or> (req_order_type r = ORDER_TYPE_LIMIT \<and> ticks (Price_of_double (req_price r)) \<le> 0)
      \<or> (req_order_type r = ORDER_TYPE_STOP \<and> ticks (Price_of_double (req_stop_price r)) \<le> 0))"

definition limit_fillable :: "OrderBook \<Rightarrow> Order \<Rightarrow> bool" where
  \<comment> \<open>the specification's condition for a limit order to fill at once\<close>
  "limit_fillable book ord =
     (((side ord = ORDER_SIDE_BUY \<and> Price_ge (price ord) (get_best_ask book))
       \<or> (side ord = ORDER_SIDE_SELL \<and> Price_le (price ord) (get_best_bid book)))
      \<and> has_sufficient_liquidity book (side ord) (quantity ord) (price ord))"

definition stop_triggered :: "OrderBook \<Rightarrow> Order \<Rightarrow> bool" where
  \<comment> \<open>the specification's trigger condition of a stop order\<close>
  "stop_triggered book ord =
     ((side ord = ORDER_SIDE_BUY \<and> Price_ge (get_mid_price book) (stop_price ord))
      \<or> (side ord = ORDER_SIDE_SELL \<and> Price_le (get_mid_price book) (stop_price ord)))"

definition risk_rejected :: "ExecutionEngine \<Rightarrow> COrderRequest \<Rightarrow> bool" where
  \<comment> \<open>the risk check of \<^verbatim>\<open>submit_order\<close>\<close>
  "risk_rejected e r =
     (enable_risk_checks (config e)
      \<and> quantity (Order_of_request r) > max_position_size (config e))"

definition counters_consistent :: "PerformanceMetrics \<Rightarrow> bool" where
  "counters_consistent m =
     (successful_executions m + failed_executions m = total_orders_processed m
      \<and> length (latency_samples m) \<le> MAX_LATENCY_SAMPLES)"

subsection \<open>Concrete books, engines and requests\<close>

text \<open>
  The AAPL book after one pass of the simulator from the price 150 with a draw of \<open>10\<^sup>-\<^sup>7\<close>
  (the new price is 15000001 ticks, the bid 14985000 and the ask 15015001), and a book whose
  asks have an unset level between two set ones.
\<close>

definition aapl_book :: OrderBook where
  "aapl_book =
     update_ask (update_bid (new_OrderBook ''AAPL'') (Price 14985000) 1000 0 1)
       (Price 15015001) 1000 0 2"


definition engine_ready :: ExecutionEngine where
  \<comment> \<open>constructed, initialised, started, and one simulator pass over AAPL\<close>
  "engine_ready =
     snd (simulate_symbol (snd (start (snd (initialize (new_ExecutionEngine 0) ''{}''))))
            ''AAPL'' (Price_of_double 150) (1 / 10000000) 1 2)"

definition market_request :: COrderRequest where
  "market_request =
     \<lparr>req_order_id = ''M1'', req_symbol = ''AAPL'', req_order_type = ORDER_TYPE_MARKET,
      req_side = ORDER_SIDE_BUY, req_quantity = 100, req_price = 0, req_stop_price = 0,
      req_time_in_force = TIME_IN_FORCE_IOC, req_timestamp_ns = 0, req_client_id = ''T''\<rparr>"

definition limit_request :: COrderRequest where
  "limit_request =
     \<lparr>req_order_id = ''L1'', req_symbol = ''AAPL'', req_order_type = ORDER_TYPE_LIMIT,
      req_side = ORDER_SIDE_BUY, req_quantity = 10, req_price = 200, req_stop_price = 0,
      req_time_in_force = TIME_IN_FORCE_GTC, req_timestamp_ns = 0, req_client_id = ''T''\<rparr>"

definition passive_request :: COrderRequest where
  "passive_request = limit_request\<lparr>req_order_id := ''L2'', req_price := 1\<rparr>"

definition double_0_07 :: real where
  \<comment> \<open>the double nearest to 0.07: \<open>1261007895663739 / 2\<^sup>5\<^sup>4\<close>\<close>
  "double_0_07 = 1261007895663739 / 18014398509481984"

definition small_request :: COrderRequest where
  \<comment> \<open>a buy of 0.07 at the limit 300\<close>
  "small_request =
     limit_request\<lparr>req_order_id := ''L3'', req_quantity := double_0_07, req_price := 300\<rparr>"

definition stop_request :: COrderRequest where
  "stop_request =
     \<lparr>req_order_id = ''S1'', req_symbol = ''AAPL'', req_order_type = ORDER_TYPE_STOP,
      req_side = ORDER_SIDE_BUY, req_quantity = 10, req_price = 0, req_stop_price = 100,
      req_time_in_force = TIME_IN_FORCE_GTC, req_timestamp_ns = 0, req_client_id = ''T''\<rparr>"

definition unnamed_request :: COrderRequest where
  "unnamed_request = market_request\<lparr>req_order_id := []\<rparr>"

definition unknown_symbol_request :: COrderRequest where
  "unknown_symbol_request = market_request\<lparr>req_symbol := ''ZZZZ''\<rparr>"

definition blank_response :: COrderResponse where
  "blank_response =
     \<lparr>resp_order_id = [], resp_result = EXEC_SUCCESS, resp_status = ORDER_STATUS_PENDING,
      resp_message = [], resp_executed_quantity = 0, resp_average_price = 0,
      resp_execution_time_ns = 0, resp_latency_micros = 0\<rparr>"

definition engine_with_order :: "COrderRequest \<Rightarrow> ExecutionEngine" where
  \<comment> \<open>\<open>engine_ready\<close> with both callbacks registered and the order of the request admitted\<close>
  "engine_with_order r =
     admit_order (register_status_callback (register_fill_callback engine_ready))
       (Order_of_request r)"

section \<open>Auxiliary facts\<close>

subsection \<open>Conversions\<close>

lemma double_to_int64_of_int: "double_to_int64 (real_of_int k) = k"
  by (simp add: double_to_int64_def)

lemma double_to_int64_nonneg: "0 \<le> x \<Longrightarrow> double_to_int64 x = \<lfloor>x\<rfloor>"
  by (simp add: double_to_int64_def)

lemma Price_of_double_numeral: "Price_of_double (numeral n) = Price (numeral n * 100000)"
  using double_to_int64_of_int [of "numeral n * 100000"]
  by (simp add: Price_of_double_def TICK_PRECISION_def)

lemma Price_of_double_zero: "Price_of_double 0 = Price 0"
  by (simp add: Price_of_double_def double_to_int64_def)

lemma Price_of_double_one: "Price_of_double 1 = Price 100000"
  using double_to_int64_of_int [of 100000]
  by (simp add: Price_of_double_def TICK_PRECISION_def)

subsection \<open>Rounding\<close>

lemma pow2_powr: "pow2 e = 2 powr real_of_int e"
  by (simp add: pow2_def powr_real_of_int inverse_eq_divide)

lemma pow2_pos: "0 < pow2 e"
  by (simp add: pow2_powr)

lemma pow2_diff: "pow2 (a - b) = pow2 a / pow2 b"
  by (simp add: pow2_powr powr_diff)

lemma pow2_52: "pow2 52 = 2 ^ 52"
  by (simp add: pow2_def)

lemma binade_eqI: "pow2 k \<le> x \<Longrightarrow> x < pow2 (k + 1) \<Longrightarrow> binade x = k"
proof -
  assume lo: "pow2 k \<le> x" and hi: "x < pow2 (k + 1)"
  from lo pow2_pos [of k] have "0 < x" by linarith
  then show ?thesis
    using lo hi by (simp add: binade_def floor_log_eq_powr_iff pow2_powr)
qed

lemma binade_lower: "0 < x \<Longrightarrow> pow2 (binade x) \<le> x"
  using floor_log_eq_powr_iff [of x 2 "binade x"] by (simp add: binade_def pow2_powr)

lemma round_half_even_error: "\<bar>real_of_int (round_half_even y) - y\<bar> \<le> 1 / 2"
  unfolding round_half_even_def by (auto; linarith)

lemma round_positive_error:
  assumes "0 < x"
  shows "\<bar>round_positive x - x\<bar> \<le> x / 2 ^ 53"
proof -
  define ulp where "ulp = pow2 (binade x - 52)"
  define m where "m = round_half_even (x / ulp)"
  have ulp_pos: "0 < ulp" by (simp add: ulp_def pow2_pos)
  have ulp_le: "ulp \<le> x / 2 ^ 52"
    using binade_lower [OF assms] by (simp add: ulp_def pow2_diff pow2_52 divide_right_mono)
  have "\<bar>real_of_int m - x / ulp\<bar> \<le> 1 / 2"
    unfolding m_def by (rule round_half_even_error)
  then have "\<bar>real_of_int m - x / ulp\<bar> * ulp \<le> 1 / 2 * ulp"
    using ulp_pos by (intro mult_right_mono) simp_all
  moreover have "\<bar>real_of_int m - x / ulp\<bar> * ulp = \<bar>real_of_int m * ulp - x\<bar>"
  proof -
    have "(real_of_int m - x / ulp) * ulp = real_of_int m * ulp - x"
      using ulp_pos by (simp add: left_diff_distrib)
    then have "\<bar>real_of_int m * ulp - x\<bar> = \<bar>real_of_int m - x / ulp\<bar> * \<bar>ulp\<bar>"
      by (simp only: abs_mult [symmetric])
    with ulp_pos show ?thesis by simp
  qed
  ultimately have "\<bar>real_of_int m * ulp - x\<bar> \<le> ulp / 2" by simp
  also have "\<dots> \<le> x / 2 ^ 53" using ulp_le by simp
  finally show ?thesis by (simp add: round_positive_def m_def ulp_def)
qed

lemma round_double_error: "0 < x \<Longrightarrow> \<bar>round_double x - x\<bar> \<le> x / 2 ^ 53"
  using round_positive_error [of x] by (simp add: round_double_def)

lemma round_double_zero: "round_double 0 = 0"
  by (simp add: round_double_def)

lemma dadd_zero: "dadd 0 y = y" "dadd x 0 = x"
  by (simp_all add: dadd_def)

lemma dmul_zero: "dmul x 0 = 0" "dmul 0 y = 0"
  by (simp_all add: dmul_def round_double_zero)

lemma int64_to_double_zero: "int64_to_double 0 = 0"
  by (simp add: int64_to_double_def round_double_zero)

lemma single_fill_quotient:
  assumes "0 < t" and "t < 2 ^ 51" and "0 < q"
  shows "real_of_int t - 1 < ddiv (dmul (int64_to_double t) q) q"
    and "ddiv (dmul (int64_to_double t) q) q < real_of_int t + 1"
proof -
  define T where "T = real_of_int t"
  define a where "a = round_double T"
  define b where "b = round_double (a * q)"
  define c where "c = round_double (b / q)"
  have T1: "1 \<le> T" using assms(1) by (simp add: T_def)
  have "real_of_int t < real_of_int (2 ^ 51)" using assms(2) by (simp only: of_int_less_iff)
  then have T2: "T < 2251799813685248" by (simp add: T_def)
  have ea: "\<bar>a - T\<bar> \<le> T / 2 ^ 53"
    unfolding a_def using T1 by (intro round_double_error) simp
  moreover have "T / 2 ^ 53 < 1 / 4" using T2 by simp
  ultimately have a_err: "\<bar>a - T\<bar> < 1 / 4" by linarith
  then have a_lo: "3 / 4 < a" and a_hi: "a < 2251799813685249"
    using T1 T2 by linarith+
  have aq: "0 < a * q" using a_lo assms(3) by simp
  have eb: "\<bar>b - a * q\<bar> \<le> a * q / 2 ^ 53"
    unfolding b_def using aq by (rule round_double_error)
  have "\<bar>b / q - a\<bar> = \<bar>b - a * q\<bar> / q"
  proof -
    have "b / q - a = (b - a * q) / q" using assms(3) by (simp add: diff_divide_distrib)
    then have "\<bar>b / q - a\<bar> = \<bar>b - a * q\<bar> / \<bar>q\<bar>" by (simp only: abs_divide)
    with assms(3) show ?thesis by simp
  qed
  also have "\<dots> \<le> (a * q / 2 ^ 53) / q"
    using eb assms(3) by (intro divide_right_mono) simp_all
  also have "\<dots> = a / 2 ^ 53" using assms(3) by simp
  finally have ebq: "\<bar>b / q - a\<bar> \<le> a / 2 ^ 53" .
  moreover have "a / 2 ^ 53 < 26 / 100" and "a / 2 ^ 53 < a" using a_hi a_lo by simp_all
  ultimately have bq_err: "\<bar>b / q - a\<bar> < 26 / 100" and bq_lo: "0 < b / q"
    and bq_hi: "b / q < 2251799813685250"
    using a_lo a_hi by linarith+
  have ec: "\<bar>c - b / q\<bar> \<le> (b / q) / 2 ^ 53"
    unfolding c_def using bq_lo by (rule round_double_error)
  moreover have "(b / q) / 2 ^ 53 < 26 / 100" using bq_hi by simp
  ultimately have c_err: "\<bar>c - b / q\<bar> < 26 / 100" by linarith
  from a_err bq_err c_err have "\<bar>c - T\<bar> < 1" by linarith
  then have "T - 1 < c" and "c < T + 1" by linarith+
  then show "real_of_int t - 1 < ddiv (dmul (int64_to_double t) q) q"
    and "ddiv (dmul (int64_to_double t) q) q < real_of_int t + 1"
    by (simp_all add: c_def b_def a_def T_def ddiv_def dmul_def int64_to_double_def)
qed

lemma single_fill_average:
  assumes "0 < t" and "t < 2 ^ 51" and "0 < q"
  shows "double_to_int64 (ddiv (dmul (int64_to_double t) q) q) = t
       \<or> double_to_int64 (ddiv (dmul (int64_to_double t) q) q) = t - 1"
proof -
  let ?c = "ddiv (dmul (int64_to_double t) q) q"
  from single_fill_quotient [OF assms] have lo: "real_of_int t - 1 < ?c"
    and hi: "?c < real_of_int t + 1" by simp_all
  from lo assms(1) have "0 \<le> ?c" by simp
  then have "double_to_int64 ?c = \<lfloor>?c\<rfloor>" by (simp add: double_to_int64_def)
  moreover from lo have "t - 1 \<le> \<lfloor>?c\<rfloor>" by (simp add: le_floor_iff)
  moreover from hi have "\<lfloor>?c\<rfloor> \<le> t" by (simp add: floor_le_iff)
  ultimately show ?thesis by auto
qed

lemma round_positive_eval:
  assumes "pow2 k \<le> x" and "x < pow2 (k + 1)"
  shows "round_double x = real_of_int (round_half_even (x / pow2 (k - 52))) * pow2 (k - 52)"
proof -
  from assms have "binade x = k" by (rule binade_eqI)
  moreover from assms(1) pow2_pos [of k] have "0 < x" by linarith
  ultimately show ?thesis by (simp add: round_double_def round_positive_def)
qed

lemma rounding_examples:
  "int64_to_double 30000000 = 30000000"
  "dmul 30000000 double_0_07 = 2100000"
  "ddiv 2100000 double_0_07 = 8053063679999999 / 268435456"
  "int64_to_double 20000000 = 20000000"
  "dmul 20000000 10 = 200000000"
  "ddiv 200000000 10 = 20000000"
proof -
  show "int64_to_double 30000000 = 30000000"
    unfolding int64_to_double_def
    by (subst round_positive_eval [where k = 24]) (simp_all add: pow2_def round_half_even_def)
  show "dmul 30000000 double_0_07 = 2100000"
    unfolding dmul_def double_0_07_def
    by (subst round_positive_eval [where k = 21]) (simp_all add: pow2_def round_half_even_def)
  show "ddiv 2100000 double_0_07 = 8053063679999999 / 268435456"
    unfolding ddiv_def double_0_07_def
    by (subst round_positive_eval [where k = 24]) (simp_all add: pow2_def round_half_even_def)
  show "int64_to_double 20000000 = 20000000"
    unfolding int64_to_double_def
    by (subst round_positive_eval [where k = 24]) (simp_all add: pow2_def round_half_even_def)
  show "dmul 20000000 10 = 200000000"
    unfolding dmul_def
    by (subst round_positive_eval [where k = 27]) (simp_all add: pow2_def round_half_even_def)
  show "ddiv 200000000 10 = 20000000"
    unfolding ddiv_def
    by (subst round_positive_eval [where k = 24]) (simp_all add: pow2_def round_half_even_def)
qed

lemma single_fill_examples:
  "double_to_int64 (ddiv (dmul (int64_to_double 30000000) double_0_07) double_0_07) = 29999999"
  "double_to_int64 (ddiv (dmul (int64_to_double 20000000) 10) 10) = 20000000"
  by (simp_all add: rounding_examples double_to_int64_def)

subsection \<open>Walks over the levels of a book\<close>




lemma fills_walk_exhausted: "r \<le> 0 \<Longrightarrow> fills_walk r ls = []"
  by (cases ls) auto









subsection \<open>Orders\<close>

lemma order_id_request: "order_id (Order_of_request r) = req_order_id r"
  by (simp add: Order_of_request_def)

lemma fresh_request:
  "filled_quantity (Order_of_request r) = 0"
  "average_fill_price_ticks (Order_of_request r) = 0"
  "fills (Order_of_request r) = []"
  "status (Order_of_request r) = ORDER_STATUS_PENDING"
  by (simp_all add: Order_of_request_def)

lemma validate_iff: "validate (Order_of_request r) = (\<not> validation_fails r)"
  by (auto simp: validate_def validation_fails_def Order_of_request_def)

lemma validate_quantity: "validate ord \<Longrightarrow> 0 < quantity ord"
  by (auto simp: validate_def split: if_splits)

lemma order_id_add_fill: "order_id (add_fill ord p q fee) = order_id ord"
  by (simp add: add_fill_def Let_def)

lemma fills_add_fill: "fills (add_fill ord p q fee) = fills ord @ [(p, q)]"
  by (simp add: add_fill_def Let_def)

lemma callback_fill_add_fill: "callback_fill (add_fill ord p q fee) f = callback_fill ord f"
  by (simp add: callback_fill_def order_id_add_fill)

lemma add_fill_fresh:
  assumes "filled_quantity ord = 0" and "average_fill_price_ticks ord = 0"
    and "fills ord = []" and "0 < quantity ord"
  shows "fills (add_fill ord p (quantity ord) fee) = [(p, quantity ord)]"
    and "status (add_fill ord p (quantity ord) fee) = ORDER_STATUS_FILLED"
    and "filled_quantity (add_fill ord p (quantity ord) fee) = quantity ord"
    and "average_fill_price_ticks (add_fill ord p (quantity ord) fee)
           = double_to_int64 (ddiv (dmul (int64_to_double (ticks p)) (quantity ord))
                                 (quantity ord))"
  using assms
  by (simp_all add: add_fill_def Let_def dadd_zero dmul_zero int64_to_double_zero)

subsection \<open>The execution path\<close>

lemma process_fills_length:
  "length (order_store (process_fills e addr fs)) = length (order_store e)"
  by (induction fs arbitrary: e) (simp_all add: Let_def)

lemma process_fills_fills:
  "addr < length (order_store e) \<Longrightarrow>
   fills (order_store (process_fills e addr fs) ! addr) = fills (order_store e ! addr) @ fs"
  by (induction fs arbitrary: e) (simp_all add: Let_def market_add_fill_args_def fills_add_fill)

lemma process_fills_log:
  "addr < length (order_store e) \<Longrightarrow>
   fill_callback_log (process_fills e addr fs) =
     fill_callback_log e
     @ (if fill_callback e then map (callback_fill (order_store e ! addr)) fs else [])"
  by (induction fs arbitrary: e)
     (simp_all add: Let_def market_add_fill_args_def callback_fill_add_fill)

lemma process_fills_active: "active_orders (process_fills e addr fs) = active_orders e"
  by (induction fs arbitrary: e) (simp_all add: Let_def)

lemma dispatch_length:
  "length (order_store (snd (dispatch_order e addr))) = length (order_store e)"
  by (simp add: dispatch_order_def execute_market_order_def execute_limit_order_def
        execute_stop_order_def Let_def process_fills_length split: OrderType.split option.split)

lemma dispatch_active: "active_orders (snd (dispatch_order e addr)) = active_orders e"
  by (simp add: dispatch_order_def execute_market_order_def execute_limit_order_def
        execute_stop_order_def Let_def process_fills_active split: OrderType.split option.split)

lemma submit_admitted_store:
  assumes "validate (Order_of_request r)" and "\<not> risk_rejected e r"
  shows "length (order_store (snd (snd (submit_order e r resp lat t))))
           = Suc (length (order_store e))"
proof -
  from assms(2) have nr: "(enable_risk_checks (config e)
      \<and> quantity (Order_of_request r) > max_position_size (config e)) = False"
    by (simp add: risk_rejected_def)
  show ?thesis using assms(1)
    by (simp add: submit_order_def Let_def dispatch_length admit_order_def nr)
qed

lemma submit_admitted_active:
  assumes "validate (Order_of_request r)" and "\<not> risk_rejected e r"
  shows "active_orders (snd (snd (submit_order e r resp lat t)))
           = AList.update (req_order_id r) (length (order_store e)) (active_orders e)"
proof -
  from assms(2) have nr: "(enable_risk_checks (config e)
      \<and> quantity (Order_of_request r) > max_position_size (config e)) = False"
    by (simp add: risk_rejected_def)
  show ?thesis using assms(1)
    by (simp add: submit_order_def Let_def dispatch_active admit_order_def order_id_request nr)
qed

subsection \<open>The seed books\<close>

lemma seed_books_lookup:
  "map_of (foldl (\<lambda>books s. AList.update s (new_OrderBook s) books) al ss) k
     = (if k \<in> set ss then Some (new_OrderBook k) else map_of al k)"
  by (induction ss arbitrary: al) (auto simp: update_conv')

lemma seed_books_keys:
  "set ss \<subseteq> fst ` set al \<Longrightarrow>
   map fst (foldl (\<lambda>books s. AList.update s (new_OrderBook s) books) al ss) = map fst al"
proof (induction ss arbitrary: al)
  case Nil
  then show ?case by simp
next
  case (Cons s ss)
  from Cons.prems have same: "map fst (AList.update s (new_OrderBook s) al) = map fst al"
    by (simp add: update_keys)
  then have "fst ` set (AList.update s (new_OrderBook s) al) = fst ` set al"
    by (metis set_map)
  with Cons.prems have "set ss \<subseteq> fst ` set (AList.update s (new_OrderBook s) al)" by simp
  from Cons.IH [OF this] same show ?case by simp
qed

lemma seed_books_again:
  "\<forall>s \<in> set ss. map_of al s = Some (new_OrderBook s) \<Longrightarrow>
   foldl (\<lambda>books s. AList.update s (new_OrderBook s) books) al ss = al"
  by (induction ss) (simp_all add: update_triv)

lemma initialize_twice: "snd (initialize (snd (initialize e c)) c') = snd (initialize e c)"
proof -
  have "foldl (\<lambda>books s. AList.update s (new_OrderBook s) books)
          (order_books (snd (initialize e c))) seed_symbols
        = order_books (snd (initialize e c))"
    by (rule seed_books_again) (simp add: initialize_def seed_books_lookup)
  then show ?thesis by (simp add: initialize_def)
qed

subsection \<open>Metrics\<close>

lemma p99_index_eq: "p99_index n = n * 99 div 100"
proof -
  have "real n * 0.99 = real (n * 99) / real 100" by simp
  then have "\<lfloor>real n * 0.99\<rfloor> = int (n * 99 div 100)"
    by (simp only: floor_divide_of_nat_eq)
  then show ?thesis
    by (simp add: p99_index_def double_to_int64_nonneg)
qed

lemma p99_index_floor: "p99_index n = nat \<lfloor>0.99 * real n\<rfloor>"
  by (simp add: p99_index_def double_to_int64_nonneg mult.commute)

lemma p99_index_less: "0 < n \<Longrightarrow> p99_index n < n"
  by (simp add: p99_index_eq)

lemma p99_latency_eq:
  "p99_latency xs = (if xs = [] then 0 else real_of_int (sort xs ! p99_index (length xs)))"
  by (simp add: p99_latency_def Let_def p99_index_less)

lemma p99_latency_mem: "xs \<noteq> [] \<Longrightarrow> p99_latency xs \<in> real_of_int ` set xs"
proof -
  assume ne: "xs \<noteq> []"
  then have "p99_index (length xs) < length (sort xs)" by (simp add: p99_index_less)
  then have "sort xs ! p99_index (length xs) \<in> set (sort xs)" by (rule nth_mem)
  then show ?thesis using ne by (simp add: p99_latency_eq)
qed

lemma trim_samples_length: "length (trim_samples xs) \<le> MAX_LATENCY_SAMPLES"
  by (simp add: trim_samples_def)

lemma trim_samples_newest:
  "trim_samples (xs @ [x]) = drop (Suc (length xs) - MAX_LATENCY_SAMPLES) (xs @ [x])"
  by (simp add: trim_samples_def)

lemma trim_samples_last: "last (trim_samples (xs @ [x])) = x"
  by (simp add: trim_samples_def MAX_LATENCY_SAMPLES_def)

lemma counters_new: "counters_consistent (new_PerformanceMetrics t0)"
  by (simp add: counters_consistent_def new_PerformanceMetrics_def)

lemma counters_step: "counters_consistent m \<Longrightarrow> counters_consistent (apply_metrics_call m c)"
  by (cases c)
     (auto simp: counters_consistent_def record_order_processed_def record_fill_def
        record_memory_usage_def record_cpu_usage_def reset_def Let_def trim_samples_length)

lemma counters_foldl:
  "counters_consistent m \<Longrightarrow> counters_consistent (foldl apply_metrics_call m cs)"
  by (induction cs arbitrary: m) (simp_all add: counters_step)

lemma counters_after: "counters_consistent (metrics_after t0 cs)"
  by (simp add: metrics_after_def counters_foldl counters_new)

subsection \<open>The concrete books and engines\<close>

lemma asks_aapl_book:
  "asks aapl_book = \<lparr>price_ticks = 15015001, level_size = 1000\<rparr> # replicate 19 new_level"
  by (simp add: aapl_book_def update_ask_def update_bid_def new_OrderBook_def
        ORDER_BOOK_DEPTH_def set_price_size_def new_level_def eval_nat_numeral)

lemma bids_aapl_book:
  "bids aapl_book = \<lparr>price_ticks = 14985000, level_size = 1000\<rparr> # replicate 19 new_level"
  by (simp add: aapl_book_def update_ask_def update_bid_def new_OrderBook_def
        ORDER_BOOK_DEPTH_def set_price_size_def new_level_def eval_nat_numeral)


lemma asks_new_OrderBook: "asks (new_OrderBook s) = new_level # replicate 19 new_level"
  by (simp add: new_OrderBook_def ORDER_BOOK_DEPTH_def eval_nat_numeral)


lemma Price_scale_examples:
  "Price_scale (Price 15000000) (10000001 / 10000000) = Price 15000001"
  "Price_scale (Price 15000001) (999 / 1000) = Price 14985000"
  "Price_scale (Price 15000001) (1001 / 1000) = Price 15015001"
  by (simp_all add: Price_scale_def double_to_int64_def)

lemma engine_ready_book: "map_of (order_books engine_ready) ''AAPL'' = Some aapl_book"
  by (simp add: engine_ready_def simulate_symbol_def start_def initialize_def
        new_ExecutionEngine_def seed_symbols_def Price_scale_examples aapl_book_def Let_def
        default_Config_def Price_of_double_numeral)

lemma engine_ready_no_book: "map_of (order_books engine_ready) ''ZZZZ'' = None"
  by (simp add: engine_ready_def simulate_symbol_def start_def initialize_def
        new_ExecutionEngine_def seed_symbols_def Let_def default_Config_def)

lemma engine_ready_fields:
  "order_store engine_ready = []" "active_orders engine_ready = []"
  "fill_callback engine_ready = False" "status_callback engine_ready = False"
  "fill_callback_log engine_ready = []" "status_callback_log engine_ready = []"
  "config engine_ready = default_Config" "running engine_ready" "initialized engine_ready"
  "metrics engine_ready = new_PerformanceMetrics 0"
  by (simp_all add: engine_ready_def simulate_symbol_def start_def initialize_def
        new_ExecutionEngine_def seed_symbols_def Let_def default_Config_def)

lemma market_fills_example:
  "get_fills_for_market_order aapl_book ORDER_SIDE_BUY 100 = [(Price 15015001, 100)]"
  by (simp add: get_fills_for_market_order_def asks_aapl_book is_valid_def get_price_def
        get_size_def fills_walk_exhausted)


lemma mid_example: "get_mid_price aapl_book = Price 15000000"
  by (simp add: get_mid_price_def get_best_bid_def get_best_ask_def asks_aapl_book
        bids_aapl_book get_price_def signed_divide_int_def)

lemma best_ask_example: "get_best_ask aapl_book = Price 15015001"
  by (simp add: get_best_ask_def asks_aapl_book get_price_def)

lemma liquidity_example:
  "has_sufficient_liquidity aapl_book ORDER_SIDE_BUY 10 (Price 20000000)"
  by (simp add: has_sufficient_liquidity_def asks_aapl_book is_valid_def get_price_def
        get_size_def Price_gt_def)

subsection \<open>Submissions to the concrete engine\<close>

lemma requests_valid:
  "validate (Order_of_request market_request)" "validate (Order_of_request limit_request)"
  "validate (Order_of_request passive_request)" "validate (Order_of_request stop_request)"
  "\<not> validate (Order_of_request unnamed_request)"
  "validate (Order_of_request unknown_symbol_request)"
  "validate (Order_of_request small_request)"
  by (simp_all add: validate_def Order_of_request_def market_request_def limit_request_def
        passive_request_def stop_request_def unnamed_request_def unknown_symbol_request_def
        small_request_def double_0_07_def Price_of_double_numeral
        Price_of_double_one Price_of_double_zero)

lemma requests_within_risk:
  "\<not> risk_rejected engine_ready market_request" "\<not> risk_rejected engine_ready limit_request"
  "\<not> risk_rejected engine_ready passive_request" "\<not> risk_rejected engine_ready stop_request"
  "\<not> risk_rejected engine_ready unknown_symbol_request"
  by (simp_all add: risk_rejected_def engine_ready_fields default_Config_def Order_of_request_def
        market_request_def limit_request_def passive_request_def stop_request_def
        unknown_symbol_request_def)

lemma submit_order_admitted:
  assumes "validate (Order_of_request r)" and "\<not> risk_rejected e r"
  shows "fst (submit_order e r resp lat t)
           = fst (dispatch_order (admit_order e (Order_of_request r)) (length (order_store e)))"
    and "order_store (snd (snd (submit_order e r resp lat t)))
           = order_store (snd (dispatch_order (admit_order e (Order_of_request r))
                                 (length (order_store e))))"
    and "resp_status (fst (snd (submit_order e r resp lat t)))
           = status (order_store (snd (snd (submit_order e r resp lat t)))
                       ! length (order_store e))"
    and "status_callback_log (snd (snd (submit_order e r resp lat t)))
           = status_callback_log (snd (dispatch_order (admit_order e (Order_of_request r))
                                         (length (order_store e))))"
    and "status_callback (snd (snd (submit_order e r resp lat t)))
           = status_callback (snd (dispatch_order (admit_order e (Order_of_request r))
                                     (length (order_store e))))"
proof -
  from assms(2) have nr: "(enable_risk_checks (config e)
      \<and> quantity (Order_of_request r) > max_position_size (config e)) = False"
    by (simp add: risk_rejected_def)
  show "fst (submit_order e r resp lat t)
           = fst (dispatch_order (admit_order e (Order_of_request r)) (length (order_store e)))"
    using assms(1) by (simp add: submit_order_def Let_def nr)
  show "order_store (snd (snd (submit_order e r resp lat t)))
           = order_store (snd (dispatch_order (admit_order e (Order_of_request r))
                                 (length (order_store e))))"
    using assms(1) by (simp add: submit_order_def Let_def nr)
  then show "resp_status (fst (snd (submit_order e r resp lat t)))
           = status (order_store (snd (snd (submit_order e r resp lat t)))
                       ! length (order_store e))"
    using assms(1) by (simp add: submit_order_def Let_def nr)
  show "status_callback_log (snd (snd (submit_order e r resp lat t)))
           = status_callback_log (snd (dispatch_order (admit_order e (Order_of_request r))
                                         (length (order_store e))))"
    using assms(1) by (simp add: submit_order_def Let_def nr)
  show "status_callback (snd (snd (submit_order e r resp lat t)))
           = status_callback (snd (dispatch_order (admit_order e (Order_of_request r))
                                     (length (order_store e))))"
    using assms(1) by (simp add: submit_order_def Let_def nr)
qed

lemma submit_keeps_distinct_ids:
  assumes "validate (Order_of_request r)" and "\<not> risk_rejected e r"
    and "distinct (map fst (active_orders e))"
  shows "distinct (map fst (active_orders (snd (snd (submit_order e r resp lat t)))))"
  using assms(3) by (simp add: submit_admitted_active [OF assms(1,2)] distinct_update)

lemma cancel_keeps_distinct_ids:
  "distinct (map fst (active_orders e)) \<Longrightarrow>
   distinct (map fst (active_orders (snd (cancel_order e oid))))"
  by (simp add: cancel_order_def Let_def distinct_delete split: option.split)

lemma admit_fields:
  "order_store (admit_order e ord) = order_store e @ [ord]"
  "order_books (admit_order e ord) = order_books e"
  "fill_callback (admit_order e ord) = fill_callback e"
  "fill_callback_log (admit_order e ord) = fill_callback_log e"
  "status_callback (admit_order e ord) = status_callback e"
  "status_callback_log (admit_order e ord) = status_callback_log e"
  "active_orders (admit_order e ord)
     = AList.update (order_id ord) (length (order_store e)) (active_orders e)"
  by (simp_all add: admit_order_def)

lemma request_fields:
  "symbol (Order_of_request r) = req_symbol r"
  "side (Order_of_request r) = req_side r"
  "quantity (Order_of_request r) = req_quantity r"
  "order_type (Order_of_request r) = req_order_type r"
  "price (Order_of_request r) = Price_of_double (req_price r)"
  "stop_price (Order_of_request r) = Price_of_double (req_stop_price r)"
  by (simp_all add: Order_of_request_def)

lemma status_add_fill:
  "status (add_fill ord p q fee)
     = (if dadd (filled_quantity ord) q \<ge> quantity ord then ORDER_STATUS_FILLED
        else ORDER_STATUS_PARTIALLY_FILLED)"
  by (simp add: add_fill_def Let_def)

lemma dispatch_market_example:
  "fst (dispatch_order (admit_order engine_ready (Order_of_request market_request)) 0)
     = EXEC_SUCCESS"
  "status (order_store (snd (dispatch_order
       (admit_order engine_ready (Order_of_request market_request)) 0)) ! 0)
     = ORDER_STATUS_FILLED"
  by (simp_all add: dispatch_order_def execute_market_order_def admit_fields request_fields
        engine_ready_fields engine_ready_book Let_def market_request_def market_fills_example
        market_add_fill_args_def status_add_fill fresh_request dadd_zero)

lemma dispatch_limit_example:
  "fst (dispatch_order (admit_order engine_ready (Order_of_request limit_request)) 0)
     = EXEC_SUCCESS"
  "status (order_store (snd (dispatch_order
       (admit_order engine_ready (Order_of_request limit_request)) 0)) ! 0)
     = ORDER_STATUS_FILLED"
  by (simp_all add: dispatch_order_def execute_limit_order_def admit_fields request_fields
        engine_ready_fields engine_ready_book Let_def limit_request_def
        Price_of_double_numeral best_ask_example liquidity_example Price_ge_def
        status_add_fill fresh_request dadd_zero)

lemma dispatch_stop_example:
  "fst (dispatch_order (admit_order engine_ready (Order_of_request stop_request)) 0)
     = EXEC_SUCCESS"
  "status (order_store (snd (dispatch_order
       (admit_order engine_ready (Order_of_request stop_request)) 0)) ! 0)
     = ORDER_STATUS_FILLED"
  by (simp_all add: dispatch_order_def execute_stop_order_def admit_fields request_fields
        engine_ready_fields engine_ready_book Let_def stop_request_def
        Price_of_double_numeral mid_example Price_ge_def status_add_fill fresh_request
        dadd_zero)

lemma dispatch_passive_example:
  "fst (dispatch_order (admit_order engine_ready (Order_of_request passive_request)) 0)
     = EXEC_SUCCESS"
  "status (order_store (snd (dispatch_order
       (admit_order engine_ready (Order_of_request passive_request)) 0)) ! 0)
     = ORDER_STATUS_SUBMITTED"
  by (simp_all add: dispatch_order_def execute_limit_order_def admit_fields request_fields
        engine_ready_fields engine_ready_book Let_def limit_request_def passive_request_def
        Price_of_double_one best_ask_example Price_ge_def set_status_def)

lemma dispatch_unknown_symbol_example:
  "fst (dispatch_order (admit_order engine_ready (Order_of_request unknown_symbol_request)) 0)
     = EXEC_ERROR_INVALID_ORDER"
  by (simp add: dispatch_order_def execute_market_order_def admit_fields request_fields
        engine_ready_fields engine_ready_no_book Let_def market_request_def
        unknown_symbol_request_def)

section \<open>Statements of the specification\<close>

subsection \<open>The order book\<close>







subsection \<open>Submission and validation\<close>

text \<open>
  C1, as amended. Validation fails exactly when the id or the symbol is empty, or the quantity
  is at most 0, or the type is LIMIT with limit price ticks at most 0, or the type is STOP with
  stop price ticks at most 0. \<^verbatim>\<open>submit_order\<close> returns \<^verbatim>\<open>INVALID_ORDER\<close> with the engine
  untouched (nothing admitted, nothing recorded in the metrics) if and only if validation
  fails; on that failure the response carries the result \<^verbatim>\<open>INVALID_ORDER\<close>, the message
  "Invalid order parameters" and the status \<^verbatim>\<open>SUBMITTED\<close> it was initialised with.
\<close>

theorem submit_order_validation:
  "validate (Order_of_request r) = (\<not> validation_fails r)
   \<and> ((fst (submit_order e r resp lat t) = EXEC_ERROR_INVALID_ORDER
        \<and> snd (snd (submit_order e r resp lat t)) = e) = validation_fails r)
   \<and> (validation_fails r \<longrightarrow>
         submit_order e r resp lat t
           = (EXEC_ERROR_INVALID_ORDER,
              (init_response r resp)\<lparr>resp_result := EXEC_ERROR_INVALID_ORDER,
                                     resp_message := ''Invalid order parameters''\<rparr>, e)
         \<and> resp_result (fst (snd (submit_order e r resp lat t))) = EXEC_ERROR_INVALID_ORDER
         \<and> resp_status (fst (snd (submit_order e r resp lat t))) = ORDER_STATUS_SUBMITTED)"
proof -
  have v: "validate (Order_of_request r) = (\<not> validation_fails r)" by (rule validate_iff)
  show ?thesis
  proof (cases "validation_fails r")
    case True
    then have "submit_order e r resp lat t
             = (EXEC_ERROR_INVALID_ORDER,
                (init_response r resp)\<lparr>resp_result := EXEC_ERROR_INVALID_ORDER,
                                       resp_message := ''Invalid order parameters''\<rparr>, e)"
      by (simp add: submit_order_def Let_def v)
    with True v show ?thesis by (simp add: init_response_def)
  next
    case False
    then have ok: "validate (Order_of_request r)" by (simp add: v)
    show ?thesis
    proof (cases "risk_rejected e r")
      case True
      with ok have "fst (submit_order e r resp lat t) = EXEC_ERROR_RISK_LIMIT_EXCEEDED"
        by (simp add: submit_order_def Let_def risk_rejected_def)
      then show ?thesis using False v by simp
    next
      case within: False
      from submit_admitted_store [OF ok within, of resp lat t]
      have "snd (snd (submit_order e r resp lat t)) \<noteq> e" by auto
      then show ?thesis using False v by simp
    qed
  qed
qed

theorem submit_order_validation_witness:
  "validation_fails unnamed_request
   \<and> submit_order engine_ready unnamed_request blank_response 7 9
       = (EXEC_ERROR_INVALID_ORDER,
          (init_response unnamed_request blank_response)
            \<lparr>resp_result := EXEC_ERROR_INVALID_ORDER,
             resp_message := ''Invalid order parameters''\<rparr>, engine_ready)
   \<and> resp_status (fst (snd (submit_order engine_ready unnamed_request blank_response 7 9)))
       = ORDER_STATUS_SUBMITTED"
proof -
  have fails: "validation_fails unnamed_request"
    by (simp add: validation_fails_def unnamed_request_def)
  from submit_order_validation [of unnamed_request engine_ready blank_response 7 9] fails
  show ?thesis by (simp add: init_response_def)
qed

text \<open>
  The claim as written has the response carry the status \<^verbatim>\<open>REJECTED\<close>. No path of the source
  assigns that status: for a request with an empty id the response keeps \<^verbatim>\<open>SUBMITTED\<close>. Nor is
  a failed validation the only way to \<^verbatim>\<open>INVALID_ORDER\<close>: a valid request for a symbol without
  a book is admitted, fails in the matching routine and returns the same code.
\<close>

theorem submit_order_validation_counterexample:
  "\<not> validate (Order_of_request unnamed_request)
   \<and> fst (submit_order engine_ready unnamed_request blank_response 7 9)
       = EXEC_ERROR_INVALID_ORDER
   \<and> resp_status (fst (snd (submit_order engine_ready unnamed_request blank_response 7 9)))
       \<noteq> ORDER_STATUS_REJECTED
   \<and> validate (Order_of_request unknown_symbol_request)
   \<and> fst (submit_order engine_ready unknown_symbol_request blank_response 7 9)
       = EXEC_ERROR_INVALID_ORDER"
proof -
  have refused: "fst (submit_order engine_ready unnamed_request blank_response 7 9)
       = EXEC_ERROR_INVALID_ORDER"
    "resp_status (fst (snd (submit_order engine_ready unnamed_request blank_response 7 9)))
       \<noteq> ORDER_STATUS_REJECTED"
    by (simp_all add: submit_order_def Let_def requests_valid init_response_def)
  have unknown: "fst (submit_order engine_ready unknown_symbol_request blank_response 7 9)
       = EXEC_ERROR_INVALID_ORDER"
    by (simp add: submit_order_admitted(1) requests_valid requests_within_risk
          engine_ready_fields dispatch_unknown_symbol_example)
  from refused unknown show ?thesis by (simp add: requests_valid)
qed

subsection \<open>Matching\<close>

text \<open>
  C2, as amended. For a market order held at \<open>addr\<close>: if its symbol has no book the result is
  \<^verbatim>\<open>INVALID_ORDER\<close>; if the level walk of the book yields no fills the result is
  \<^verbatim>\<open>INSUFFICIENT_LIQUIDITY\<close> and the engine, with the order in it, is unchanged; otherwise the
  result is \<^verbatim>\<open>SUCCESS\<close>, every emitted pair is appended in order to the fill history of the
  order as (price, size), with no fee (\<^verbatim>\<open>add_fill\<close> is called with its default fee of 0 and
  stores none), and, when a fill callback is registered, it is invoked once per pair, in
  order, with a fill whose fee is 0.001 times the size.
\<close>

theorem market_order_matching:
  assumes "addr < length (order_store e)"
  shows "(case map_of (order_books e) (symbol (order_store e ! addr)) of
            None \<Rightarrow> execute_market_order e addr = (EXEC_ERROR_INVALID_ORDER, e)
          | Some book \<Rightarrow>
              (let emitted = get_fills_for_market_order book (side (order_store e ! addr))
                               (quantity (order_store e ! addr))
               in if emitted = []
                  then execute_market_order e addr = (EXEC_ERROR_INSUFFICIENT_LIQUIDITY, e)
                  else fst (execute_market_order e addr) = EXEC_SUCCESS
                     \<and> fills (order_store (snd (execute_market_order e addr)) ! addr)
                         = fills (order_store e ! addr) @ emitted
                     \<and> map (\<lambda>f. snd (snd (market_add_fill_args f))) emitted
                         = map (\<lambda>f. 0) emitted
                     \<and> fill_callback_log (snd (execute_market_order e addr))
                         = fill_callback_log e
                           @ (if fill_callback e
                              then map (callback_fill (order_store e ! addr)) emitted else [])
                     \<and> map fill_fee (map (callback_fill (order_store e ! addr)) emitted)
                         = map (\<lambda>f. 0.001 * snd f) emitted
                     \<and> map (\<lambda>c. (fill_price c, fill_quantity c))
                           (map (callback_fill (order_store e ! addr)) emitted)
                         = map (\<lambda>f. (to_double (fst f), snd f)) emitted))"
  using assms
  by (simp add: execute_market_order_def Let_def process_fills_fills process_fills_log
        callback_fill_def market_add_fill_args_def add_fill_default_fee_def split: option.split)

theorem market_order_matching_witness:
  "0 < length (order_store (engine_with_order market_request))
   \<and> fst (execute_market_order (engine_with_order market_request) 0) = EXEC_SUCCESS
   \<and> fills (order_store (snd (execute_market_order (engine_with_order market_request) 0)) ! 0)
       = [(Price 15015001, 100)]
   \<and> map fill_fee (fill_callback_log
         (snd (execute_market_order (engine_with_order market_request) 0))) = [0.1]"
proof -
  have stored: "0 < length (order_store (engine_with_order market_request))"
    "order_store (engine_with_order market_request) ! 0 = Order_of_request market_request"
    "map_of (order_books (engine_with_order market_request)) ''AAPL'' = Some aapl_book"
    "fill_callback (engine_with_order market_request)"
    "fill_callback_log (engine_with_order market_request) = []"
    by (simp_all add: engine_with_order_def admit_fields register_fill_callback_def
          register_status_callback_def engine_ready_fields engine_ready_book)
  have req: "req_symbol market_request = ''AAPL''" "req_side market_request = ORDER_SIDE_BUY"
    "req_quantity market_request = 100"
    by (simp_all add: market_request_def)
  from market_order_matching [OF stored(1)] stored(1)
  show ?thesis
    by (simp add: stored request_fields req market_fills_example fresh_request Let_def
          callback_fill_def)
qed

text \<open>
  The claim as written adds each pair to the order with a fee of 0.001 times its size. The call
  in the loop passes the price and the size only, so \<^verbatim>\<open>add_fill\<close> receives its default fee:
  for the buy of 100 that the AAPL book fills at level 0 the fee argument is 0, not 0.1.
\<close>

theorem market_order_matching_counterexample:
  "fst (execute_market_order (engine_with_order market_request) 0) = EXEC_SUCCESS
   \<and> map market_add_fill_args (get_fills_for_market_order aapl_book ORDER_SIDE_BUY 100)
       = [(Price 15015001, 100, 0)]
   \<and> (0::real) \<noteq> 0.001 * 100"
  by (simp add: execute_market_order_def engine_with_order_def admit_fields
        register_fill_callback_def register_status_callback_def engine_ready_fields
        engine_ready_book request_fields market_request_def market_fills_example Let_def
        market_add_fill_args_def add_fill_default_fee_def)

text \<open>
  C5, as amended. For a valid limit order on a known symbol, fresh from its request: the order
  fills at once if and only if (BUY and limit at least the best ask, or SELL and limit at most
  the best bid) and \<^verbatim>\<open>has_sufficient_liquidity\<close> holds for its side, quantity and limit. When it
  fills, its history is the single fill at the limit price for the full quantity and its
  status is \<^verbatim>\<open>FILLED\<close>; its average fill price is the quotient (limit ticks \<open>\<cdot>\<close> quantity) /
  quantity, computed in doubles and truncated, which for a limit below \<open>2\<^sup>5\<^sup>1\<close> ticks is the
  limit price or one tick less. Otherwise its status is \<^verbatim>\<open>SUBMITTED\<close> and nothing is filled.
  The result is \<^verbatim>\<open>SUCCESS\<close> in both cases.
\<close>

theorem limit_order_matching:
  assumes "addr < length (order_store e)"
    and "order_store e ! addr = Order_of_request r"
    and "validate (Order_of_request r)"
    and "map_of (order_books e) (symbol (Order_of_request r)) = Some book"
  shows "fst (execute_limit_order e addr) = EXEC_SUCCESS
    \<and> (fills (order_store (snd (execute_limit_order e addr)) ! addr) \<noteq> [])
        = limit_fillable book (Order_of_request r)
    \<and> (if limit_fillable book (Order_of_request r)
       then fills (order_store (snd (execute_limit_order e addr)) ! addr)
              = [(price (Order_of_request r), quantity (Order_of_request r))]
          \<and> status (order_store (snd (execute_limit_order e addr)) ! addr) = ORDER_STATUS_FILLED
          \<and> filled_quantity (order_store (snd (execute_limit_order e addr)) ! addr)
              = quantity (Order_of_request r)
          \<and> average_fill_price_ticks (order_store (snd (execute_limit_order e addr)) ! addr)
              = double_to_int64
                  (ddiv (dmul (int64_to_double (ticks (price (Order_of_request r))))
                              (quantity (Order_of_request r)))
                        (quantity (Order_of_request r)))
          \<and> (order_type (Order_of_request r) = ORDER_TYPE_LIMIT
               \<and> ticks (price (Order_of_request r)) < 2 ^ 51
             \<longrightarrow> get_average_fill_price (order_store (snd (execute_limit_order e addr)) ! addr)
                   = price (Order_of_request r)
                 \<or> get_average_fill_price (order_store (snd (execute_limit_order e addr)) ! addr)
                   = Price (ticks (price (Order_of_request r)) - 1))
       else status (order_store (snd (execute_limit_order e addr)) ! addr)
              = ORDER_STATUS_SUBMITTED
          \<and> filled_quantity (order_store (snd (execute_limit_order e addr)) ! addr) = 0
          \<and> fills (order_store (snd (execute_limit_order e addr)) ! addr) = [])"
proof -
  have q: "0 < quantity (Order_of_request r)" using assms(3) by (rule validate_quantity)
  note fr = add_fill_fresh [OF fresh_request(1) fresh_request(2) fresh_request(3) q]
  show ?thesis
  proof (cases "limit_fillable book (Order_of_request r)")
    case True
    then have ex: "execute_limit_order e addr = (EXEC_SUCCESS,
        e\<lparr>order_store := (order_store e)
            [addr := add_fill (Order_of_request r) (price (Order_of_request r))
                       (quantity (Order_of_request r)) add_fill_default_fee]\<rparr>)"
      using assms(2,4) by (auto simp add: execute_limit_order_def limit_fillable_def Let_def)
    have near: "order_type (Order_of_request r) = ORDER_TYPE_LIMIT
               \<and> ticks (price (Order_of_request r)) < 2 ^ 51
      \<longrightarrow> get_average_fill_price (add_fill (Order_of_request r) (price (Order_of_request r))
             (quantity (Order_of_request r)) add_fill_default_fee) = price (Order_of_request r)
        \<or> get_average_fill_price (add_fill (Order_of_request r) (price (Order_of_request r))
             (quantity (Order_of_request r)) add_fill_default_fee)
           = Price (ticks (price (Order_of_request r)) - 1)"
    proof
      assume lim: "order_type (Order_of_request r) = ORDER_TYPE_LIMIT
               \<and> ticks (price (Order_of_request r)) < 2 ^ 51"
      with assms(3) have pos: "0 < ticks (price (Order_of_request r))"
        by (auto simp: validate_def split: if_splits)
      from lim have below: "ticks (price (Order_of_request r)) < 2 ^ 51" by simp
      from single_fill_average [OF pos below q]
      show "get_average_fill_price (add_fill (Order_of_request r) (price (Order_of_request r))
             (quantity (Order_of_request r)) add_fill_default_fee) = price (Order_of_request r)
        \<or> get_average_fill_price (add_fill (Order_of_request r) (price (Order_of_request r))
             (quantity (Order_of_request r)) add_fill_default_fee)
           = Price (ticks (price (Order_of_request r)) - 1)"
        by (cases "price (Order_of_request r)") (auto simp: get_average_fill_price_def fr)
    qed
    show ?thesis using True assms(1) near by (simp add: ex fr)
  next
    case False
    then have ex: "execute_limit_order e addr = (EXEC_SUCCESS,
        e\<lparr>order_store := (order_store e)
            [addr := set_status (Order_of_request r) ORDER_STATUS_SUBMITTED]\<rparr>)"
      using assms(2,4) by (auto simp add: execute_limit_order_def limit_fillable_def Let_def)
    show ?thesis using False assms(1) by (simp add: ex set_status_def fresh_request)
  qed
qed

theorem limit_order_matching_witness:
  "0 < length (order_store (engine_with_order limit_request))
   \<and> order_store (engine_with_order limit_request) ! 0 = Order_of_request limit_request
   \<and> validate (Order_of_request limit_request)
   \<and> map_of (order_books (engine_with_order limit_request))
        (symbol (Order_of_request limit_request)) = Some aapl_book
   \<and> limit_fillable aapl_book (Order_of_request limit_request)
   \<and> order_type (Order_of_request limit_request) = ORDER_TYPE_LIMIT
   \<and> ticks (price (Order_of_request limit_request)) < 2 ^ 51
   \<and> fst (execute_limit_order (engine_with_order limit_request) 0) = EXEC_SUCCESS
   \<and> fills (order_store (snd (execute_limit_order (engine_with_order limit_request) 0)) ! 0)
       = [(Price 20000000, 10)]
   \<and> status (order_store (snd (execute_limit_order (engine_with_order limit_request) 0)) ! 0)
       = ORDER_STATUS_FILLED
   \<and> average_fill_price_ticks
        (order_store (snd (execute_limit_order (engine_with_order limit_request) 0)) ! 0)
       = 20000000"
proof -
  have stored: "0 < length (order_store (engine_with_order limit_request))"
    "order_store (engine_with_order limit_request) ! 0 = Order_of_request limit_request"
    "map_of (order_books (engine_with_order limit_request))
        (symbol (Order_of_request limit_request)) = Some aapl_book"
    by (simp_all add: engine_with_order_def admit_fields register_fill_callback_def
          register_status_callback_def engine_ready_fields engine_ready_book request_fields
          limit_request_def)
  have fillable: "limit_fillable aapl_book (Order_of_request limit_request)"
    by (simp add: limit_fillable_def request_fields limit_request_def Price_of_double_numeral
          best_ask_example liquidity_example Price_ge_def)
  have lim: "price (Order_of_request limit_request) = Price 20000000"
    "quantity (Order_of_request limit_request) = 10"
    "order_type (Order_of_request limit_request) = ORDER_TYPE_LIMIT"
    by (simp_all add: request_fields limit_request_def Price_of_double_numeral)
  from limit_order_matching [OF stored(1) stored(2) requests_valid(2) stored(3)] fillable
    stored(1)
  show ?thesis by (simp add: stored requests_valid lim single_fill_examples)
qed

text \<open>
  The claim as written has the average fill price equal the limit price. For a buy of 0.07 at
  the limit 300 against the AAPL book the order fills, the product of 30000000 ticks and the
  double 0.07 rounds to 2100000, its quotient by 0.07 rounds to \<open>30000000 - 2\<^sup>-\<^sup>2\<^sup>8\<close>, and
  the truncation stores 29999999 ticks.
\<close>

theorem limit_order_matching_counterexample:
  "validate (Order_of_request small_request)
   \<and> order_type (Order_of_request small_request) = ORDER_TYPE_LIMIT
   \<and> limit_fillable aapl_book (Order_of_request small_request)
   \<and> price (Order_of_request small_request) = Price 30000000
   \<and> fst (execute_limit_order (engine_with_order small_request) 0) = EXEC_SUCCESS
   \<and> status (order_store (snd (execute_limit_order (engine_with_order small_request) 0)) ! 0)
       = ORDER_STATUS_FILLED
   \<and> get_average_fill_price
        (order_store (snd (execute_limit_order (engine_with_order small_request) 0)) ! 0)
       = Price 29999999
   \<and> get_average_fill_price
        (order_store (snd (execute_limit_order (engine_with_order small_request) 0)) ! 0)
       \<noteq> price (Order_of_request small_request)"
proof -
  have req: "price (Order_of_request small_request) = Price 30000000"
    "quantity (Order_of_request small_request) = double_0_07"
    "side (Order_of_request small_request) = ORDER_SIDE_BUY"
    "symbol (Order_of_request small_request) = ''AAPL''"
    "order_type (Order_of_request small_request) = ORDER_TYPE_LIMIT"
    by (simp_all add: request_fields small_request_def limit_request_def
          Price_of_double_numeral)
  have stored: "order_store (engine_with_order small_request) = [Order_of_request small_request]"
    "map_of (order_books (engine_with_order small_request)) ''AAPL'' = Some aapl_book"
    by (simp_all add: engine_with_order_def admit_fields register_fill_callback_def
          register_status_callback_def engine_ready_fields engine_ready_book)
  have enough: "has_sufficient_liquidity aapl_book ORDER_SIDE_BUY double_0_07 (Price 30000000)"
    by (simp add: has_sufficient_liquidity_def asks_aapl_book is_valid_def get_price_def
          get_size_def Price_gt_def double_0_07_def)
  have fillable: "limit_fillable aapl_book (Order_of_request small_request)"
    by (simp add: limit_fillable_def req best_ask_example enough Price_ge_def)
  have q: "0 < quantity (Order_of_request small_request)"
    by (simp add: req double_0_07_def)
  note fr = add_fill_fresh [OF fresh_request(1) fresh_request(2) fresh_request(3) q]
  have ex: "execute_limit_order (engine_with_order small_request) 0 = (EXEC_SUCCESS,
      (engine_with_order small_request)
        \<lparr>order_store := [add_fill (Order_of_request small_request) (Price 30000000)
                           (quantity (Order_of_request small_request))
                           add_fill_default_fee]\<rparr>)"
    using fillable
    by (auto simp add: execute_limit_order_def limit_fillable_def Let_def stored req)
  have avg: "average_fill_price_ticks
      (add_fill (Order_of_request small_request) (Price 30000000)
         (quantity (Order_of_request small_request)) add_fill_default_fee) = 29999999"
    using fr(4) [of "Price 30000000" add_fill_default_fee]
    by (simp add: req single_fill_examples)
  have filled: "status
      (add_fill (Order_of_request small_request) (Price 30000000)
         (quantity (Order_of_request small_request)) add_fill_default_fee) = ORDER_STATUS_FILLED"
    by (rule fr(2))
  from avg filled show ?thesis
    by (simp add: requests_valid req fillable ex get_average_fill_price_def)
qed

text \<open>
  C6. For a valid stop order on a known symbol, fresh from its request, with \<open>p\<close> the mid
  price of the book: the stop triggers if and only if (BUY and \<open>p\<close> at least the stop price) or
  (SELL and \<open>p\<close> at most the stop price). When triggered, the history of the order is the single
  fill at \<open>p\<close> for the full quantity; otherwise its status is \<^verbatim>\<open>SUBMITTED\<close> and nothing is
  filled. The result is \<^verbatim>\<open>SUCCESS\<close> in both cases.
\<close>

theorem stop_order_matching:
  assumes "addr < length (order_store e)"
    and "order_store e ! addr = Order_of_request r"
    and "validate (Order_of_request r)"
    and "map_of (order_books e) (symbol (Order_of_request r)) = Some book"
  shows "fst (execute_stop_order e addr) = EXEC_SUCCESS
    \<and> (fills (order_store (snd (execute_stop_order e addr)) ! addr) \<noteq> [])
        = stop_triggered book (Order_of_request r)
    \<and> (if stop_triggered book (Order_of_request r)
       then fills (order_store (snd (execute_stop_order e addr)) ! addr)
              = [(get_mid_price book, quantity (Order_of_request r))]
          \<and> status (order_store (snd (execute_stop_order e addr)) ! addr) = ORDER_STATUS_FILLED
          \<and> filled_quantity (order_store (snd (execute_stop_order e addr)) ! addr)
              = quantity (Order_of_request r)
       else status (order_store (snd (execute_stop_order e addr)) ! addr)
              = ORDER_STATUS_SUBMITTED
          \<and> filled_quantity (order_store (snd (execute_stop_order e addr)) ! addr) = 0
          \<and> fills (order_store (snd (execute_stop_order e addr)) ! addr) = [])"
proof -
  have q: "0 < quantity (Order_of_request r)" using assms(3) by (rule validate_quantity)
  note fr = add_fill_fresh [OF fresh_request(1) fresh_request(2) fresh_request(3) q]
  show ?thesis
  proof (cases "stop_triggered book (Order_of_request r)")
    case True
    then have ex: "execute_stop_order e addr = (EXEC_SUCCESS,
        e\<lparr>order_store := (order_store e)
            [addr := add_fill (Order_of_request r) (get_mid_price book)
                       (quantity (Order_of_request r)) add_fill_default_fee]\<rparr>)"
      using assms(2,4) by (auto simp add: execute_stop_order_def stop_triggered_def Let_def)
    show ?thesis using True assms(1) by (simp add: ex fr)
  next
    case False
    then have ex: "execute_stop_order e addr = (EXEC_SUCCESS,
        e\<lparr>order_store := (order_store e)
            [addr := set_status (Order_of_request r) ORDER_STATUS_SUBMITTED]\<rparr>)"
      using assms(2,4) by (auto simp add: execute_stop_order_def stop_triggered_def Let_def)
    show ?thesis using False assms(1) by (simp add: ex set_status_def fresh_request)
  qed
qed

theorem stop_order_matching_witness:
  "0 < length (order_store (engine_with_order stop_request))
   \<and> order_store (engine_with_order stop_request) ! 0 = Order_of_request stop_request
   \<and> validate (Order_of_request stop_request)
   \<and> map_of (order_books (engine_with_order stop_request))
        (symbol (Order_of_request stop_request)) = Some aapl_book
   \<and> stop_triggered aapl_book (Order_of_request stop_request)
   \<and> fst (execute_stop_order (engine_with_order stop_request) 0) = EXEC_SUCCESS
   \<and> fills (order_store (snd (execute_stop_order (engine_with_order stop_request) 0)) ! 0)
       = [(Price 15000000, 10)]
   \<and> status (order_store (snd (execute_stop_order (engine_with_order stop_request) 0)) ! 0)
       = ORDER_STATUS_FILLED"
proof -
  have stored: "0 < length (order_store (engine_with_order stop_request))"
    "order_store (engine_with_order stop_request) ! 0 = Order_of_request stop_request"
    "map_of (order_books (engine_with_order stop_request))
        (symbol (Order_of_request stop_request)) = Some aapl_book"
    by (simp_all add: engine_with_order_def admit_fields register_fill_callback_def
          register_status_callback_def engine_ready_fields engine_ready_book request_fields
          stop_request_def)
  have triggered: "stop_triggered aapl_book (Order_of_request stop_request)"
    by (simp add: stop_triggered_def request_fields stop_request_def Price_of_double_numeral
          mid_example Price_ge_def)
  have qty: "quantity (Order_of_request stop_request) = 10"
    by (simp add: request_fields stop_request_def)
  from stop_order_matching [OF stored(1) stored(2) requests_valid(4) stored(3)] triggered
    stored(1)
  show ?thesis by (simp add: stored requests_valid qty mid_example)
qed

subsection \<open>Cancellation\<close>

text \<open>
  C7. An order is active when its status is \<^verbatim>\<open>SUBMITTED\<close> or \<^verbatim>\<open>PARTIALLY_FILLED\<close>.
  \<^verbatim>\<open>cancel_order\<close> returns \<^verbatim>\<open>ORDER_NOT_FOUND\<close> when the id is not in the active-orders map, and
  \<^verbatim>\<open>INVALID_ORDER\<close> when the order is there but not active, the engine unchanged in both cases.
  Otherwise it sets the status of the order to \<^verbatim>\<open>CANCELLED\<close>, erases the id from the map, hands
  the id, \<^verbatim>\<open>CANCELLED\<close> and the message "Order cancelled" to the registered status callback and
  returns \<^verbatim>\<open>SUCCESS\<close>; cancelling the same id again then returns \<^verbatim>\<open>ORDER_NOT_FOUND\<close>.
\<close>

theorem cancel_order_cases:
  "is_active ord
     = (status ord = ORDER_STATUS_SUBMITTED \<or> status ord = ORDER_STATUS_PARTIALLY_FILLED)
   \<and> (case map_of (active_orders e) oid of
         None \<Rightarrow> cancel_order e oid = (EXEC_ERROR_ORDER_NOT_FOUND, e)
       | Some addr \<Rightarrow>
           (if \<not> is_active (order_store e ! addr)
            then cancel_order e oid = (EXEC_ERROR_INVALID_ORDER, e)
            else fst (cancel_order e oid) = EXEC_SUCCESS
               \<and> order_store (snd (cancel_order e oid))
                   = (order_store e)
                       [addr := (order_store e ! addr)\<lparr>status := ORDER_STATUS_CANCELLED\<rparr>]
               \<and> active_orders (snd (cancel_order e oid)) = AList.delete oid (active_orders e)
               \<and> map_of (active_orders (snd (cancel_order e oid))) oid = None
               \<and> status_callback_log (snd (cancel_order e oid))
                   = status_callback_log e
                     @ (if status_callback e
                        then [(oid, ORDER_STATUS_CANCELLED, ''Order cancelled'')] else [])
               \<and> fst (cancel_order (snd (cancel_order e oid)) oid)
                   = EXEC_ERROR_ORDER_NOT_FOUND))"
  by (simp add: is_active_def cancel_order_def Let_def set_status_def delete_conv
        split: option.split)

text \<open>
  The sixth scenario of the specification: a resting limit order is submitted, cancelled, and
  cancelled again.
\<close>

theorem cancel_order_cases_witness:
  "fst (submit_order (register_status_callback engine_ready) passive_request blank_response 7 9)
     = EXEC_SUCCESS
   \<and> fst (cancel_order
           (snd (snd (submit_order (register_status_callback engine_ready) passive_request
                        blank_response 7 9))) ''L2'')
       = EXEC_SUCCESS
   \<and> status_callback_log
        (snd (cancel_order
           (snd (snd (submit_order (register_status_callback engine_ready) passive_request
                        blank_response 7 9))) ''L2''))
       = [(''L2'', ORDER_STATUS_CANCELLED, ''Order cancelled'')]
   \<and> fst (cancel_order
        (snd (cancel_order
           (snd (snd (submit_order (register_status_callback engine_ready) passive_request
                        blank_response 7 9))) ''L2'')) ''L2'')
       = EXEC_ERROR_ORDER_NOT_FOUND"
proof -
  let ?before = "register_status_callback engine_ready"
  let ?after = "snd (snd (submit_order ?before passive_request blank_response 7 9))"
  have before: "order_store ?before = []" "active_orders ?before = []" "status_callback ?before"
    "status_callback_log ?before = []" "map_of (order_books ?before) ''AAPL'' = Some aapl_book"
    "config ?before = default_Config"
    by (simp_all add: register_status_callback_def engine_ready_fields engine_ready_book)
  have within: "\<not> risk_rejected ?before passive_request"
    by (simp add: risk_rejected_def before default_Config_def request_fields passive_request_def
          limit_request_def)
  note adm = submit_order_admitted [OF requests_valid(3) within, of blank_response 7 9]
  have rid: "req_order_id passive_request = ''L2''"
    by (simp add: passive_request_def)
  have d: "fst (dispatch_order (admit_order ?before (Order_of_request passive_request)) 0)
             = EXEC_SUCCESS"
    "order_store (snd (dispatch_order (admit_order ?before (Order_of_request passive_request)) 0))
       = [(Order_of_request passive_request)\<lparr>status := ORDER_STATUS_SUBMITTED\<rparr>]"
    "status_callback_log
       (snd (dispatch_order (admit_order ?before (Order_of_request passive_request)) 0)) = []"
    "status_callback
       (snd (dispatch_order (admit_order ?before (Order_of_request passive_request)) 0))"
    by (simp_all add: dispatch_order_def execute_limit_order_def admit_fields request_fields
          before Let_def limit_request_def passive_request_def Price_of_double_one
          best_ask_example Price_ge_def set_status_def)
  have submitted: "fst (submit_order ?before passive_request blank_response 7 9) = EXEC_SUCCESS"
    "map_of (active_orders ?after) ''L2'' = Some 0"
    "is_active (order_store ?after ! 0)"
    "status_callback ?after" "status_callback_log ?after = []"
    using submit_admitted_active [OF requests_valid(3) within, of blank_response 7 9]
    by (simp_all add: adm before d rid is_active_def)
  from cancel_order_cases [of "order_store ?after ! 0" ?after "''L2''"] submitted
  show ?thesis by simp
qed

subsection \<open>Metrics\<close>

text \<open>
  C8. After any sequence of calls on a metrics object, the snapshot satisfies
  \<open>successful_executions + failed_executions = total_orders_processed\<close> (in the 64-bit
  arithmetic of the counters): each recorded order increments the total and exactly one of the
  other two. The sample buffer never holds more than 10000 entries, and recording keeps the
  newest entries, the new sample last. The reported P99 is the entry at index
  \<open>\<lfloor>0.99 \<cdot> n\<rfloor>\<close> of the sorted buffer, hence one of the samples, and 0 when the buffer is
  empty. The average latency is the latency sum divided by the total, and 0 when the total is 0.
\<close>

theorem metrics_snapshot:
  "m_successful_executions (metrics_get_metrics (metrics_after t0 cs) now)
     + m_failed_executions (metrics_get_metrics (metrics_after t0 cs) now)
     = m_total_orders_processed (metrics_get_metrics (metrics_after t0 cs) now)
   \<and> total_orders_processed (record_order_processed m l ok) = total_orders_processed m + 1
   \<and> successful_executions (record_order_processed m l ok)
       = successful_executions m + (if ok then 1 else 0)
   \<and> failed_executions (record_order_processed m l ok)
       = failed_executions m + (if ok then 0 else 1)
   \<and> length (latency_samples (metrics_after t0 cs)) \<le> 10000
   \<and> latency_samples (record_order_processed m l ok)
       = drop (Suc (length (latency_samples m)) - 10000) (latency_samples m @ [l])
   \<and> last (latency_samples (record_order_processed m l ok)) = l
   \<and> m_p99_latency_micros (metrics_get_metrics m now)
       = (if latency_samples m = [] then 0
          else real_of_int (sort (latency_samples m)
                 ! nat \<lfloor>0.99 * real (length (latency_samples m))\<rfloor>))
   \<and> (latency_samples m = []
       \<or> m_p99_latency_micros (metrics_get_metrics m now)
           \<in> real_of_int ` set (latency_samples m))
   \<and> m_average_latency_micros (metrics_get_metrics m now)
       = (if total_orders_processed m = 0 then 0
          else real (unat (total_latency_micros m)) / real (unat (total_orders_processed m)))"
proof -
  have inv: "counters_consistent (metrics_after t0 cs)" by (rule counters_after)
  have sums: "m_successful_executions (metrics_get_metrics (metrics_after t0 cs) now)
     + m_failed_executions (metrics_get_metrics (metrics_after t0 cs) now)
     = m_total_orders_processed (metrics_get_metrics (metrics_after t0 cs) now)"
    using inv by (simp add: counters_consistent_def metrics_get_metrics_def)
  have bound: "length (latency_samples (metrics_after t0 cs)) \<le> 10000"
    using inv by (simp add: counters_consistent_def MAX_LATENCY_SAMPLES_def)
  have step: "total_orders_processed (record_order_processed m l ok)
       = total_orders_processed m + 1"
    "successful_executions (record_order_processed m l ok)
       = successful_executions m + (if ok then 1 else 0)"
    "failed_executions (record_order_processed m l ok)
       = failed_executions m + (if ok then 0 else 1)"
    by (simp_all add: record_order_processed_def Let_def)
  have newest: "latency_samples (record_order_processed m l ok)
       = drop (Suc (length (latency_samples m)) - 10000) (latency_samples m @ [l])"
    "last (latency_samples (record_order_processed m l ok)) = l"
    using trim_samples_newest [of "latency_samples m" l]
      trim_samples_last [of "latency_samples m" l]
    by (simp_all add: record_order_processed_def Let_def MAX_LATENCY_SAMPLES_def)
  have p99: "m_p99_latency_micros (metrics_get_metrics m now)
       = (if latency_samples m = [] then 0
          else real_of_int (sort (latency_samples m)
                 ! nat \<lfloor>0.99 * real (length (latency_samples m))\<rfloor>))"
    by (simp add: metrics_get_metrics_def p99_latency_eq p99_index_floor)
  have mem: "latency_samples m = []
       \<or> m_p99_latency_micros (metrics_get_metrics m now)
           \<in> real_of_int ` set (latency_samples m)"
    using p99_latency_mem [of "latency_samples m"] by (auto simp: metrics_get_metrics_def)
  have avg: "m_average_latency_micros (metrics_get_metrics m now)
       = (if total_orders_processed m = 0 then 0
          else real (unat (total_latency_micros m)) / real (unat (total_orders_processed m)))"
    by (simp add: metrics_get_metrics_def word_greater_zero_iff)
  from sums bound step newest p99 mem avg show ?thesis by blast
qed

theorem metrics_snapshot_witness:
  "m_total_orders_processed (metrics_get_metrics
       (metrics_after 0 [Record_order_processed 5 True, Record_order_processed 7 False]) 9) = 2
   \<and> m_successful_executions (metrics_get_metrics
       (metrics_after 0 [Record_order_processed 5 True, Record_order_processed 7 False]) 9)
     + m_failed_executions (metrics_get_metrics
       (metrics_after 0 [Record_order_processed 5 True, Record_order_processed 7 False]) 9) = 2
   \<and> latency_samples
       (metrics_after 0 [Record_order_processed 5 True, Record_order_processed 7 False]) = [5, 7]
   \<and> m_p99_latency_micros (metrics_get_metrics
       (metrics_after 0 [Record_order_processed 5 True, Record_order_processed 7 False]) 9) = 7
   \<and> m_average_latency_micros (metrics_get_metrics
       (metrics_after 0 [Record_order_processed 5 True, Record_order_processed 7 False]) 9) = 6"
proof -
  let ?m = "metrics_after 0 [Record_order_processed 5 True, Record_order_processed 7 False]"
  have run: "total_orders_processed ?m = 2" "latency_samples ?m = [5, 7]"
    "total_latency_micros ?m = 12"
    by (simp_all add: metrics_after_def new_PerformanceMetrics_def record_order_processed_def
          Let_def trim_samples_def MAX_LATENCY_SAMPLES_def)
  have total: "m_total_orders_processed (metrics_get_metrics ?m 9) = 2"
    by (simp add: metrics_get_metrics_def run)
  have idx: "nat \<lfloor>0.99 * real (length [5, 7 :: int])\<rfloor> = 1"
    by simp
  from metrics_snapshot [of 0 "[Record_order_processed 5 True, Record_order_processed 7 False]"
      9 ?m 0 True] total idx
  show ?thesis by (simp add: run)
qed

subsection \<open>Lifecycle\<close>

text \<open>
  C9, as amended. \<^verbatim>\<open>initialize\<close> returns \<^verbatim>\<open>SUCCESS\<close> on every call, the second included. It
  leaves every data member but the books and the \<open>initialized\<close> flag as it was, and after it
  each of the five seed symbols has a fresh book with all levels unset, whatever its book held
  before; the books of other symbols are unchanged, and when the seed symbols were present
  already the set of symbols is unchanged. So a second \<^verbatim>\<open>initialize\<close> changes nothing when it
  follows the first at once, and empties the seed books otherwise. \<^verbatim>\<open>start\<close> on a running
  engine returns \<^verbatim>\<open>SUCCESS\<close> and changes nothing; \<^verbatim>\<open>stop\<close> returns \<^verbatim>\<open>SUCCESS\<close> whether or not
  the engine is running, also through the C interface when there is no engine; and \<^verbatim>\<open>start\<close>
  before any \<^verbatim>\<open>initialize\<close> returns \<^verbatim>\<open>SYSTEM_ERROR\<close>, on a constructed engine and through the
  C interface when there is none.
\<close>

theorem lifecycle_operations:
  "fst (initialize e c) = EXEC_SUCCESS
   \<and> snd (initialize e c)
       = e\<lparr>order_books := order_books (snd (initialize e c)), initialized := True\<rparr>
   \<and> (\<forall>k. map_of (order_books (snd (initialize e c))) k
            = (if k \<in> set seed_symbols then Some (new_OrderBook k)
               else map_of (order_books e) k))
   \<and> (set seed_symbols \<subseteq> fst ` set (order_books e)
        \<longrightarrow> map fst (order_books (snd (initialize e c))) = map fst (order_books e))
   \<and> snd (initialize (snd (initialize e c)) c') = snd (initialize e c)
   \<and> (initialized e \<and> running e \<longrightarrow> start e = (EXEC_SUCCESS, e))
   \<and> fst (stop e) = EXEC_SUCCESS
   \<and> engine_stop None = (EXEC_SUCCESS, None)
   \<and> (\<not> initialized e \<longrightarrow> start e = (EXEC_ERROR_SYSTEM_ERROR, e))
   \<and> engine_start None = (EXEC_ERROR_SYSTEM_ERROR, None)"
proof -
  have init: "fst (initialize e c) = EXEC_SUCCESS"
    "snd (initialize e c)
       = e\<lparr>order_books := order_books (snd (initialize e c)), initialized := True\<rparr>"
    by (simp_all add: initialize_def)
  have books: "\<forall>k. map_of (order_books (snd (initialize e c))) k
            = (if k \<in> set seed_symbols then Some (new_OrderBook k)
               else map_of (order_books e) k)"
    by (simp add: initialize_def seed_books_lookup)
  have keys: "set seed_symbols \<subseteq> fst ` set (order_books e)
        \<longrightarrow> map fst (order_books (snd (initialize e c))) = map fst (order_books e)"
    by (simp add: initialize_def seed_books_keys)
  have again: "snd (initialize (snd (initialize e c)) c') = snd (initialize e c)"
    by (rule initialize_twice)
  have others: "initialized e \<and> running e \<longrightarrow> start e = (EXEC_SUCCESS, e)"
    "fst (stop e) = EXEC_SUCCESS" "engine_stop None = (EXEC_SUCCESS, None)"
    "\<not> initialized e \<longrightarrow> start e = (EXEC_ERROR_SYSTEM_ERROR, e)"
    "engine_start None = (EXEC_ERROR_SYSTEM_ERROR, None)"
    by (simp_all add: start_def stop_def engine_stop_def engine_start_def)
  from init books keys again others show ?thesis by blast
qed

theorem lifecycle_operations_witness:
  "initialized engine_ready \<and> running engine_ready
   \<and> set seed_symbols \<subseteq> fst ` set (order_books engine_ready)
   \<and> fst (initialize engine_ready ''{}'') = EXEC_SUCCESS
   \<and> map fst (order_books (snd (initialize engine_ready ''{}'')))
       = [''AAPL'', ''GOOGL'', ''MSFT'', ''TSLA'', ''AMZN'']
   \<and> start engine_ready = (EXEC_SUCCESS, engine_ready)
   \<and> fst (stop (snd (stop engine_ready))) = EXEC_SUCCESS
   \<and> \<not> initialized (new_ExecutionEngine 0)
   \<and> start (new_ExecutionEngine 0) = (EXEC_ERROR_SYSTEM_ERROR, new_ExecutionEngine 0)"
proof -
  have keys: "map fst (order_books engine_ready)
      = [''AAPL'', ''GOOGL'', ''MSFT'', ''TSLA'', ''AMZN'']"
    by (simp add: engine_ready_def simulate_symbol_def start_def initialize_def
          new_ExecutionEngine_def seed_symbols_def Let_def default_Config_def)
  then have "set (map fst (order_books engine_ready)) = set seed_symbols"
    by (simp only: seed_symbols_def)
  then have present: "set seed_symbols \<subseteq> fst ` set (order_books engine_ready)"
    by simp
  have fresh: "\<not> initialized (new_ExecutionEngine 0)"
    by (simp add: new_ExecutionEngine_def)
  from lifecycle_operations [of engine_ready "''{}''" "''{}''"]
    lifecycle_operations [of "snd (stop engine_ready)" "''{}''" "''{}''"]
    lifecycle_operations [of "new_ExecutionEngine 0" "''{}''" "''{}''"] present fresh keys
  show ?thesis by (simp add: engine_ready_fields)
qed

text \<open>
  The claim as written makes the second \<^verbatim>\<open>initialize\<close> a no-op under which the seed books
  persist. The loop of \<^verbatim>\<open>initialize\<close> assigns a new book to every seed symbol on every call:
  on the initialised, running engine whose AAPL book the simulator has filled, a second
  \<^verbatim>\<open>initialize\<close> puts an empty book in its place.
\<close>

theorem lifecycle_operations_counterexample:
  "initialized engine_ready
   \<and> fst (initialize engine_ready ''{}'') = EXEC_SUCCESS
   \<and> map_of (order_books engine_ready) ''AAPL'' = Some aapl_book
   \<and> map_of (order_books (snd (initialize engine_ready ''{}''))) ''AAPL''
       = Some (new_OrderBook ''AAPL'')
   \<and> get_best_ask aapl_book = Price 15015001
   \<and> get_best_ask (new_OrderBook ''AAPL'') = Price 0
   \<and> snd (initialize engine_ready ''{}'') \<noteq> engine_ready"
proof -
  have after: "map_of (order_books (snd (initialize engine_ready ''{}''))) ''AAPL''
       = Some (new_OrderBook ''AAPL'')"
    by (simp add: initialize_def seed_symbols_def update_conv')
  have empty: "get_best_ask (new_OrderBook ''AAPL'') = Price 0"
    by (simp add: get_best_ask_def asks_new_OrderBook get_price_def new_level_def)
  have differ: "aapl_book \<noteq> new_OrderBook ''AAPL''"
    using best_ask_example empty by auto
  have "snd (initialize engine_ready ''{}'') \<noteq> engine_ready"
  proof
    assume "snd (initialize engine_ready ''{}'') = engine_ready"
    with after have "map_of (order_books engine_ready) ''AAPL'' = Some (new_OrderBook ''AAPL'')"
      by simp
    with engine_ready_book differ show False by simp
  qed
  with after empty show ?thesis
    by (simp add: engine_ready_fields engine_ready_book best_ask_example initialize_def)
qed

subsection \<open>Admitted orders stay in the active-orders map\<close>

text \<open>
  C10. An order that passes validation and the risk check is entered in the active-orders map
  by \<^verbatim>\<open>submit_order\<close> under its id, and the execution path erases nothing: after the call
  the map is the old one with that entry. The entry points to the order as the execution left
  it, whose status the response reports; when that status is \<^verbatim>\<open>FILLED\<close>, a later
  \<^verbatim>\<open>cancel_order\<close> on the id returns \<^verbatim>\<open>INVALID_ORDER\<close>, not \<^verbatim>\<open>ORDER_NOT_FOUND\<close>, and changes
  nothing. A pass of a worker over the queue leaves the map and the orders alone. The
  \<open>active_orders\<close> of the metrics snapshot is the size of the map (the ids in it stay
  distinct, one entry each), which counts the order whatever its status.
\<close>

theorem admitted_orders_stay:
  assumes "validate (Order_of_request r)" and "\<not> risk_rejected e r"
  shows "active_orders (snd (snd (submit_order e r resp lat t)))
           = AList.update (req_order_id r) (length (order_store e)) (active_orders e)
    \<and> map_of (active_orders (snd (snd (submit_order e r resp lat t)))) (req_order_id r)
        = Some (length (order_store e))
    \<and> length (order_store e) < length (order_store (snd (snd (submit_order e r resp lat t))))
    \<and> resp_status (fst (snd (submit_order e r resp lat t)))
        = status (order_store (snd (snd (submit_order e r resp lat t))) ! length (order_store e))
    \<and> (status (order_store (snd (snd (submit_order e r resp lat t))) ! length (order_store e))
          = ORDER_STATUS_FILLED
        \<longrightarrow> cancel_order (snd (snd (submit_order e r resp lat t))) (req_order_id r)
              = (EXEC_ERROR_INVALID_ORDER, snd (snd (submit_order e r resp lat t))))
    \<and> active_orders (process_order_queue_pass (snd (snd (submit_order e r resp lat t))))
        = active_orders (snd (snd (submit_order e r resp lat t)))
    \<and> order_store (process_order_queue_pass (snd (snd (submit_order e r resp lat t))))
        = order_store (snd (snd (submit_order e r resp lat t)))
    \<and> m_active_orders (get_metrics (snd (snd (submit_order e r resp lat t))) now)
        = of_nat (length (active_orders (snd (snd (submit_order e r resp lat t)))))
    \<and> req_order_id r \<in> fst ` set (active_orders (snd (snd (submit_order e r resp lat t))))
    \<and> (distinct (map fst (active_orders e))
        \<longrightarrow> distinct (map fst (active_orders (snd (snd (submit_order e r resp lat t))))))
    \<and> 0 < length (active_orders (snd (snd (submit_order e r resp lat t))))"
proof -
  let ?after = "snd (snd (submit_order e r resp lat t))"
  have entry: "active_orders ?after
      = AList.update (req_order_id r) (length (order_store e)) (active_orders e)"
    using assms by (rule submit_admitted_active)
  then have found: "map_of (active_orders ?after) (req_order_id r) = Some (length (order_store e))"
    by (simp add: update_conv')
  then have member: "req_order_id r \<in> fst ` set (active_orders ?after)"
    by (metis domI dom_map_of_conv_image_fst)
  then have nonempty: "0 < length (active_orders ?after)"
    by auto
  have grown: "length (order_store e) < length (order_store ?after)"
    using submit_admitted_store [OF assms, of resp lat t] by simp
  have reported: "resp_status (fst (snd (submit_order e r resp lat t)))
      = status (order_store ?after ! length (order_store e))"
    using assms by (rule submit_order_admitted(3))
  have cancel: "status (order_store ?after ! length (order_store e)) = ORDER_STATUS_FILLED
      \<longrightarrow> cancel_order ?after (req_order_id r) = (EXEC_ERROR_INVALID_ORDER, ?after)"
    by (simp add: cancel_order_def found is_active_def)
  have count: "m_active_orders (get_metrics ?after now) = of_nat (length (active_orders ?after))"
    by (simp add: get_metrics_def)
  have worker: "active_orders (process_order_queue_pass ?after) = active_orders ?after"
    "order_store (process_order_queue_pass ?after) = order_store ?after"
    by (simp_all add: process_order_queue_pass_def)
  have ids: "distinct (map fst (active_orders e))
      \<longrightarrow> distinct (map fst (active_orders ?after))"
    using submit_keeps_distinct_ids [OF assms, of resp lat t] by simp
  from entry found grown reported cancel count worker member ids nonempty
  show ?thesis by blast
qed

theorem admitted_orders_stay_witness:
  "validate (Order_of_request market_request) \<and> \<not> risk_rejected engine_ready market_request
   \<and> resp_status (fst (snd (submit_order engine_ready market_request blank_response 7 9)))
       = ORDER_STATUS_FILLED
   \<and> cancel_order (snd (snd (submit_order engine_ready market_request blank_response 7 9)))
        ''M1''
       = (EXEC_ERROR_INVALID_ORDER,
          snd (snd (submit_order engine_ready market_request blank_response 7 9)))
   \<and> m_active_orders
        (get_metrics (snd (snd (submit_order engine_ready market_request blank_response 7 9)))
           11) = 1
   \<and> resp_status (fst (snd (submit_order engine_ready limit_request blank_response 7 9)))
       = ORDER_STATUS_FILLED
   \<and> fst (cancel_order (snd (snd (submit_order engine_ready limit_request blank_response 7 9)))
            ''L1'') = EXEC_ERROR_INVALID_ORDER
   \<and> resp_status (fst (snd (submit_order engine_ready stop_request blank_response 7 9)))
       = ORDER_STATUS_FILLED
   \<and> fst (cancel_order (snd (snd (submit_order engine_ready stop_request blank_response 7 9)))
            ''S1'') = EXEC_ERROR_INVALID_ORDER"
proof -
  have ids: "req_order_id market_request = ''M1''" "req_order_id limit_request = ''L1''"
    "req_order_id stop_request = ''S1''"
    by (simp_all add: market_request_def limit_request_def stop_request_def)
  have filled:
    "status (order_store (snd (snd (submit_order engine_ready market_request blank_response 7 9)))
               ! 0) = ORDER_STATUS_FILLED"
    "status (order_store (snd (snd (submit_order engine_ready limit_request blank_response 7 9)))
               ! 0) = ORDER_STATUS_FILLED"
    "status (order_store (snd (snd (submit_order engine_ready stop_request blank_response 7 9)))
               ! 0) = ORDER_STATUS_FILLED"
    by (simp_all add: submit_order_admitted(2) requests_valid requests_within_risk
          engine_ready_fields dispatch_market_example dispatch_limit_example
          dispatch_stop_example)
  from admitted_orders_stay [OF requests_valid(1) requests_within_risk(1),
      of blank_response 7 9 11]
    admitted_orders_stay [OF requests_valid(2) requests_within_risk(2),
      of blank_response 7 9 11]
    admitted_orders_stay [OF requests_valid(4) requests_within_risk(4),
      of blank_response 7 9 11]
    filled
  show ?thesis
    by (simp add: requests_valid requests_within_risk engine_ready_fields ids)
qed

end
